theory Spec2Isabelle
  imports Complex_Main
begin

section \<open>Python values\<close>

text \<open>
  The values that \<^verbatim>\<open>json.load\<close>, \<^verbatim>\<open>json.loads\<close> and \<^verbatim>\<open>Response.json()\<close> hand to the
  plugin: \<^verbatim>\<open>None\<close>, booleans, integers, floats, strings, lists and dictionaries with
  string keys. A dictionary is an association list read with \<open>map_of\<close>. Timestamps and
  the temperature are floats; they are compared, never computed with, and are modelled
  as reals.
\<close>

datatype json =
    JNull
  | JBool bool
  | JInt int
  | JFloat real
  | JStr string
  | JArr "json list"
  | JObj "(string \<times> json) list"

text \<open>Exceptions, each with the text \<^verbatim>\<open>str(e)\<close> gives. \<open>HTTPStatusError\<close> also carries
  the status code and the body of its response.\<close>

datatype exn =
    IOError string
  | JSONDecodeError string
  | KeyError string
  | IndexError string
  | TypeError string
  | AttributeError string
  | ValueError string
  | HTTPStatusError string nat string
  | TransportError string
  | Exception string

fun str_exn :: "exn \<Rightarrow> string" where
  "str_exn (IOError m) = m"
| "str_exn (JSONDecodeError m) = m"
| "str_exn (KeyError m) = m"
| "str_exn (IndexError m) = m"
| "str_exn (TypeError m) = m"
| "str_exn (AttributeError m) = m"
| "str_exn (ValueError m) = m"
| "str_exn (HTTPStatusError m _ _) = m"
| "str_exn (TransportError m) = m"
| "str_exn (Exception m) = m"

text \<open>Truthiness, as \<^verbatim>\<open>if x:\<close> and \<^verbatim>\<open>x or d\<close> test it.\<close>

fun truthy :: "json \<Rightarrow> bool" where
  "truthy JNull = False"
| "truthy (JBool b) = b"
| "truthy (JInt i) = (i \<noteq> 0)"
| "truthy (JFloat x) = (x \<noteq> 0)"
| "truthy (JStr s) = (s \<noteq> [])"
| "truthy (JArr xs) = (xs \<noteq> [])"
| "truthy (JObj kvs) = (kvs \<noteq> [])"

text \<open>\<^verbatim>\<open>s.startswith(p)\<close> and the substring test \<^verbatim>\<open>p in s\<close> on strings.\<close>

definition startswith :: "string \<Rightarrow> string \<Rightarrow> bool" where
  "startswith s p = (take (length p) s = p)"

fun contains_str :: "string \<Rightarrow> string \<Rightarrow> bool" where
  "contains_str [] p = (p = [])"
| "contains_str (c # cs) p = (startswith (c # cs) p \<or> contains_str cs p)"

text \<open>\<^verbatim>\<open>k in x\<close> for a string \<open>k\<close>: key membership in a dictionary, element membership in
  a list, substring in a string, \<^verbatim>\<open>TypeError\<close> on anything else.\<close>

fun py_in :: "string \<Rightarrow> json \<Rightarrow> exn + bool" where
  "py_in k (JObj kvs) = Inr (map_of kvs k \<noteq> None)"
| "py_in k (JArr xs) = Inr (List.member xs (JStr k))"
| "py_in k (JStr s) = Inr (contains_str s k)"
| "py_in k _ = Inl (TypeError ''argument is not iterable'')"

text \<open>\<^verbatim>\<open>x.get(k, d)\<close>: only a dictionary has the method.\<close>

fun py_get :: "json \<Rightarrow> string \<Rightarrow> json \<Rightarrow> exn + json" where
  "py_get (JObj kvs) k d = Inr (case map_of kvs k of None \<Rightarrow> d | Some v \<Rightarrow> v)"
| "py_get _ k d = Inl (AttributeError ''object has no attribute get'')"

text \<open>\<^verbatim>\<open>x[k]\<close> for a string \<open>k\<close>, and \<^verbatim>\<open>x[0]\<close>.\<close>

fun py_getitem :: "json \<Rightarrow> string \<Rightarrow> exn + json" where
  "py_getitem (JObj kvs) k = (case map_of kvs k of None \<Rightarrow> Inl (KeyError k) | Some v \<Rightarrow> Inr v)"
| "py_getitem (JArr xs) k = Inl (TypeError ''list indices must be integers or slices, not str'')"
| "py_getitem (JStr s) k = Inl (TypeError ''string indices must be integers, not str'')"
| "py_getitem _ k = Inl (TypeError ''object is not subscriptable'')"

fun py_getitem0 :: "json \<Rightarrow> exn + json" where
  "py_getitem0 (JArr []) = Inl (IndexError ''list index out of range'')"
| "py_getitem0 (JArr (x # xs)) = Inr x"
| "py_getitem0 (JStr []) = Inl (IndexError ''string index out of range'')"
| "py_getitem0 (JStr (c # cs)) = Inr (JStr [c])"
| "py_getitem0 (JObj kvs) = Inl (KeyError ''0'')"
| "py_getitem0 _ = Inl (TypeError ''object is not subscriptable'')"

text \<open>\<^verbatim>\<open>x > t\<close> against a float \<open>t\<close>: numbers (and booleans, which are integers) compare,
  everything else raises \<^verbatim>\<open>TypeError\<close>.\<close>

fun py_gt :: "json \<Rightarrow> real \<Rightarrow> exn + bool" where
  "py_gt (JInt i) t = Inr (real_of_int i > t)"
| "py_gt (JFloat x) t = Inr (x > t)"
| "py_gt (JBool b) t = Inr ((if b then 1 else 0) > t)"
| "py_gt _ t = Inl (TypeError ''> not supported between these instances'')"

text \<open>\<^verbatim>\<open>x[:4]\<close> followed by \<^verbatim>\<open>len(x)\<close>, as the debug output of \<^verbatim>\<open>execute\<close> evaluates them:
  strings and lists can be sliced, nothing else can (a dictionary raises too: a
  \<^verbatim>\<open>TypeError\<close> up to Python 3.11, a \<^verbatim>\<open>KeyError\<close> after; it is a \<^verbatim>\<open>TypeError\<close> here).\<close>

fun py_slice_len :: "json \<Rightarrow> exn + nat" where
  "py_slice_len (JStr s) = Inr (length s)"
| "py_slice_len (JArr xs) = Inr (length xs)"
| "py_slice_len _ = Inl (TypeError ''object is not subscriptable'')"

text \<open>\<^verbatim>\<open>s.strip()\<close> on ASCII text.\<close>

definition is_space :: "char \<Rightarrow> bool" where
  "is_space c =
     List.member [CHR 0x20, CHR 0x09, CHR 0x0A, CHR 0x0B, CHR 0x0C, CHR 0x0D,
                  CHR 0x1C, CHR 0x1D, CHR 0x1E, CHR 0x1F] c"

definition strip :: "string \<Rightarrow> string" where
  "strip s = rev (dropWhile is_space (rev (dropWhile is_space s)))"

text \<open>\<^verbatim>\<open>str(n)\<close> for a status code.\<close>

definition digit_char :: "nat \<Rightarrow> char" where
  "digit_char d = ''0123456789'' ! d"

fun str_nat :: "nat \<Rightarrow> string" where
  "str_nat n = (if n < 10 then [digit_char n] else str_nat (n div 10) @ [digit_char (n mod 10)])"

section \<open>The world outside the plugin\<close>

text \<open>
  The JSON library is a parameter: \<open>loads\<close> is \<^verbatim>\<open>json.loads\<close> (\<open>Inl\<close> carries the message
  of the \<^verbatim>\<open>JSONDecodeError\<close>), \<open>dumps\<close> what \<^verbatim>\<open>json.dump\<close> writes.
\<close>

record json_lib =
  loads :: "string \<Rightarrow> string + json"
  dumps :: "json \<Rightarrow> string"

text \<open>
  An HTTP response: its status code, the message \<^verbatim>\<open>raise_for_status\<close> would raise with,
  its body (\<^verbatim>\<open>.text\<close>), the lines \<^verbatim>\<open>iter_lines()\<close> yields when it is streamed, and the
  exception that ends the iteration early, if any. A call either raises or returns one.
  The lines are a list: a server that never stops streaming is outside the model.
\<close>

record http_response =
  status_code :: nat
  status_message :: string
  body :: string
  lines :: "string list"
  lines_error :: "exn option"

datatype http_reply = Raises exn | Returns http_response

text \<open>The credential a request carries in its authorization header.\<close>

datatype credential = Anonymous | Token json | Bearer json

text \<open>What the plugin does to the outside, in order.\<close>

datatype event =
    Http_Post string credential json
  | Http_Get string credential
  | Http_Stream string credential json
  | Sleep nat

text \<open>
  The two credential files (\<open>None\<close>: opening the file for reading raises \<^verbatim>\<open>IOError\<close>;
  the flag: whether opening it for writing succeeds), the clock \<^verbatim>\<open>datetime.now()\<close> reads
  (\<^verbatim>\<open>time.sleep\<close> advances it, nothing else does),
  the replies of the network to the calls in the order they are made, the number of calls
  made so far, the events so far, and the \<^verbatim>\<open>response_json\<close> attribute of the response sink.
\<close>

record world =
  access_token_file :: "string option"
  access_token_writable :: bool
  api_key_file :: "string option"
  api_key_writable :: bool
  clock :: real
  http :: "nat \<Rightarrow> http_reply"
  ncalls :: nat
  trace :: "event list"
  response_sink :: "json option"

definition http_call :: "event \<Rightarrow> world \<Rightarrow> (exn + http_response) \<times> world" where
  "http_call ev w =
     (let w' = w\<lparr>ncalls := Suc (ncalls w), trace := trace w @ [ev]\<rparr>
      in case http w (ncalls w) of
           Raises e \<Rightarrow> (Inl e, w')
         | Returns r \<Rightarrow> (Inr r, w'))"

definition sleep :: "nat \<Rightarrow> world \<Rightarrow> world" where
  "sleep n w = w\<lparr>clock := clock w + real n, trace := trace w @ [Sleep n]\<rparr>"

definition is_success :: "http_response \<Rightarrow> bool" where
  "is_success r = (200 \<le> status_code r \<and> status_code r < 300)"

definition raise_for_status :: "http_response \<Rightarrow> exn + http_response" where
  "raise_for_status r =
     (if is_success r then Inr r
      else Inl (HTTPStatusError (status_message r) (status_code r) (body r)))"

definition response_json_of :: "json_lib \<Rightarrow> http_response \<Rightarrow> exn + json" where
  "response_json_of lib r =
     (case loads lib (body r) of Inl m \<Rightarrow> Inl (JSONDecodeError m) | Inr j \<Rightarrow> Inr j)"

text \<open>The three statements \<^verbatim>\<open>resp = client.post(...); resp.raise_for_status();
  resp.json()\<close> that each credential call starts with.\<close>

definition fetch_json :: "json_lib \<Rightarrow> event \<Rightarrow> world \<Rightarrow> (exn + json) \<times> world" where
  "fetch_json lib ev w =
     (case http_call ev w of
        (Inl e, w') \<Rightarrow> (Inl e, w')
      | (Inr r, w') \<Rightarrow>
          (case raise_for_status r of
             Inl e \<Rightarrow> (Inl e, w')
           | Inr r' \<Rightarrow> (response_json_of lib r', w')))"

section \<open>GitHubCopilotAuthenticator\<close>

definition github_client_id :: string where
  "github_client_id = ''Iv1.b507a08c87ecfe98''"

definition github_device_code_url :: string where
  "github_device_code_url = ''https://github.com/login/device/code''"

definition github_access_token_url :: string where
  "github_access_token_url = ''https://github.com/login/oauth/access_token''"

definition github_api_key_url :: string where
  "github_api_key_url = ''https://api.github.com/copilot_internal/v2/token''"

text \<open>\<^verbatim>\<open>_get_github_headers\<close>: the authorization header is set when an access token is
  given and truthy. The other headers are constants and are left out of the events.\<close>

definition get_github_headers :: "json option \<Rightarrow> credential" where
  "get_github_headers access_token =
     (case access_token of
        None \<Rightarrow> Anonymous
      | Some t \<Rightarrow> if truthy t then Token t else Anonymous)"

subsection \<open>Device code\<close>

text \<open>\<^verbatim>\<open>all(field in resp_json for field in required_fields)\<close>, which stops at the first
  field that is missing and raises where \<^verbatim>\<open>in\<close> does.\<close>

fun all_in :: "string list \<Rightarrow> json \<Rightarrow> exn + bool" where
  "all_in [] j = Inr True"
| "all_in (f # fs) j =
     (case py_in f j of
        Inl e \<Rightarrow> Inl e
      | Inr present \<Rightarrow> if present then all_in fs j else Inr False)"

definition device_code_request :: event where
  "device_code_request =
     Http_Post github_device_code_url (get_github_headers None)
       (JObj [(''client_id'', JStr github_client_id), (''scope'', JStr ''read:user'')])"

definition get_device_code_try :: "json_lib \<Rightarrow> world \<Rightarrow> (exn + json) \<times> world" where
  "get_device_code_try lib w =
     (case fetch_json lib device_code_request w of
        (Inl e, w') \<Rightarrow> (Inl e, w')
      | (Inr resp_json, w') \<Rightarrow>
          (case all_in [''device_code'', ''user_code'', ''verification_uri''] resp_json of
             Inl e \<Rightarrow> (Inl e, w')
           | Inr ok \<Rightarrow>
               if ok then (Inr resp_json, w')
               else (Inl (Exception ''Response missing required fields''), w')))"

definition get_device_code :: "json_lib \<Rightarrow> world \<Rightarrow> (exn + json) \<times> world" where
  "get_device_code lib w =
     (case get_device_code_try lib w of
        (Inl e, w') \<Rightarrow> (Inl (Exception (''Failed to get device code: '' @ str_exn e)), w')
      | (Inr resp_json, w') \<Rightarrow> (Inr resp_json, w'))"

subsection \<open>Polling for the access token\<close>

definition poll_request :: "json \<Rightarrow> event" where
  "poll_request device_code =
     Http_Post github_access_token_url (get_github_headers None)
       (JObj [(''client_id'', JStr github_client_id),
              (''device_code'', device_code),
              (''grant_type'', JStr ''urn:ietf:params:oauth:grant-type:device_code'')])"

text \<open>The body of the \<^verbatim>\<open>try\<close> of one iteration: \<open>Some\<close> token when the loop returns,
  \<open>None\<close> when it goes on to sleep (both the pending and the unexpected response only
  print).\<close>

definition poll_try :: "json_lib \<Rightarrow> json \<Rightarrow> world \<Rightarrow> (exn + json option) \<times> world" where
  "poll_try lib device_code w =
     (case fetch_json lib (poll_request device_code) w of
        (Inl e, w') \<Rightarrow> (Inl e, w')
      | (Inr resp_json, w') \<Rightarrow>
          (case py_in ''access_token'' resp_json of
             Inl e \<Rightarrow> (Inl e, w')
           | Inr has_token \<Rightarrow>
               if has_token then
                 (case py_getitem resp_json ''access_token'' of
                    Inl e \<Rightarrow> (Inl e, w')
                  | Inr t \<Rightarrow> (Inr (Some t), w'))
               else
                 (case py_in ''error'' resp_json of
                    Inl e \<Rightarrow> (Inl e, w')
                  | Inr has_error \<Rightarrow>
                      if has_error then
                        (case py_get resp_json ''error'' JNull of
                           Inl e \<Rightarrow> (Inl e, w')
                         | Inr err \<Rightarrow> (Inr None, w'))
                      else (Inr None, w'))))"

text \<open>The loop \<^verbatim>\<open>for attempt in range(max_attempts)\<close>, by the number of attempts left.\<close>

fun poll_loop :: "json_lib \<Rightarrow> json \<Rightarrow> nat \<Rightarrow> world \<Rightarrow> (exn + json) \<times> world" where
  "poll_loop lib device_code 0 w =
     (Inl (Exception ''Timed out waiting for user to authorize the device''), w)"
| "poll_loop lib device_code (Suc n) w =
     (case poll_try lib device_code w of
        (Inl e, w') \<Rightarrow> (Inl (Exception (''Failed to get access token: '' @ str_exn e)), w')
      | (Inr (Some t), w') \<Rightarrow> (Inr t, w')
      | (Inr None, w') \<Rightarrow> poll_loop lib device_code n (sleep 5 w'))"

definition max_attempts :: nat where
  "max_attempts = 12"

definition poll_for_access_token :: "json_lib \<Rightarrow> json \<Rightarrow> world \<Rightarrow> (exn + json) \<times> world" where
  "poll_for_access_token lib device_code w = poll_loop lib device_code max_attempts w"

subsection \<open>Login\<close>

definition login :: "json_lib \<Rightarrow> world \<Rightarrow> (exn + json) \<times> world" where
  "login lib w =
     (case get_device_code lib w of
        (Inl e, w') \<Rightarrow> (Inl e, w')
      | (Inr info, w') \<Rightarrow>
          (case py_getitem info ''device_code'' of
             Inl e \<Rightarrow> (Inl e, w')
           | Inr device_code \<Rightarrow>
               (case py_getitem info ''user_code'' of
                  Inl e \<Rightarrow> (Inl e, w')
                | Inr user_code \<Rightarrow>
                    (case py_getitem info ''verification_uri'' of
                       Inl e \<Rightarrow> (Inl e, w')
                     | Inr verification_uri \<Rightarrow> poll_for_access_token lib device_code w'))))"

subsection \<open>The access token\<close>

text \<open>Writing the token: an \<^verbatim>\<open>IOError\<close> on opening the file is swallowed; \<^verbatim>\<open>f.write\<close> of
  a value that is not a string raises \<^verbatim>\<open>TypeError\<close> after the file was truncated.\<close>

definition save_access_token :: "json \<Rightarrow> world \<Rightarrow> (exn + unit) \<times> world" where
  "save_access_token t w =
     (if \<not> access_token_writable w then (Inr (), w)
      else case t of
             JStr s \<Rightarrow> (Inr (), w\<lparr>access_token_file := Some s\<rparr>)
           | _ \<Rightarrow> (Inl (TypeError ''write() argument must be str''),
                    w\<lparr>access_token_file := Some []\<rparr>))"

definition login_try :: "json_lib \<Rightarrow> world \<Rightarrow> (exn + json) \<times> world" where
  "login_try lib w =
     (case login lib w of
        (Inl e, w') \<Rightarrow> (Inl e, w')
      | (Inr t, w') \<Rightarrow>
          (case save_access_token t w' of
             (Inl e, w'') \<Rightarrow> (Inl e, w'')
           | (Inr u, w'') \<Rightarrow> (Inr t, w'')))"

text \<open>The loop \<^verbatim>\<open>for attempt in range(3)\<close>, by the number of attempts left; a loop that
  ran out would leave the function, which then returns \<^verbatim>\<open>None\<close>.\<close>

fun login_loop :: "json_lib \<Rightarrow> nat \<Rightarrow> world \<Rightarrow> (exn + json) \<times> world" where
  "login_loop lib 0 w = (Inr JNull, w)"
| "login_loop lib (Suc n) w =
     (case login_try lib w of
        (Inr t, w') \<Rightarrow> (Inr t, w')
      | (Inl e, w') \<Rightarrow>
          if 3 - Suc n = 2
          then (Inl (Exception ''Failed to get access token after 3 attempts''), w')
          else login_loop lib n w')"

definition get_access_token :: "json_lib \<Rightarrow> world \<Rightarrow> (exn + json) \<times> world" where
  "get_access_token lib w =
     (case access_token_file w of
        None \<Rightarrow> login_loop lib 3 w
      | Some s \<Rightarrow> if strip s \<noteq> [] then (Inr (JStr (strip s)), w) else login_loop lib 3 w)"

subsection \<open>The API key\<close>

text \<open>The body of the \<^verbatim>\<open>try\<close> of one attempt of \<^verbatim>\<open>_refresh_api_key\<close>: \<open>Some\<close> record when
  the function returns, \<open>None\<close> when the response has no token.\<close>

definition refresh_try :: "json_lib \<Rightarrow> credential \<Rightarrow> world \<Rightarrow> (exn + json option) \<times> world" where
  "refresh_try lib headers w =
     (case fetch_json lib (Http_Get github_api_key_url headers) w of
        (Inl e, w') \<Rightarrow> (Inl e, w')
      | (Inr response_json, w') \<Rightarrow>
          (case py_in ''token'' response_json of
             Inl e \<Rightarrow> (Inl e, w')
           | Inr has_token \<Rightarrow>
               if has_token then (Inr (Some response_json), w') else (Inr None, w')))"

definition max_retries :: nat where
  "max_retries = 3"

text \<open>The loop \<^verbatim>\<open>for attempt in range(max_retries)\<close>, by the number of attempts left: an
  exception is printed, and every attempt but the last is followed by one second of
  sleep.\<close>

fun refresh_loop :: "json_lib \<Rightarrow> credential \<Rightarrow> nat \<Rightarrow> world \<Rightarrow> (exn + json) \<times> world" where
  "refresh_loop lib headers 0 w =
     (Inl (Exception ''Failed to refresh API key after maximum retries''), w)"
| "refresh_loop lib headers (Suc n) w =
     (case refresh_try lib headers w of
        (Inr (Some response_json), w') \<Rightarrow> (Inr response_json, w')
      | (r, w') \<Rightarrow>
          refresh_loop lib headers n
            (if max_retries - Suc n < max_retries - 1 then sleep 1 w' else w'))"

definition refresh_api_key :: "json_lib \<Rightarrow> world \<Rightarrow> (exn + json) \<times> world" where
  "refresh_api_key lib w =
     (case get_access_token lib w of
        (Inl e, w') \<Rightarrow> (Inl e, w')
      | (Inr access_token, w') \<Rightarrow>
          refresh_loop lib (get_github_headers (Some access_token)) max_retries w')"

text \<open>The first \<^verbatim>\<open>try\<close> of \<^verbatim>\<open>get_api_key\<close>: \<open>Some\<close> token when the cached record is
  returned, \<open>None\<close> when control falls through to the refresh.\<close>

definition cached_api_key_try :: "json_lib \<Rightarrow> world \<Rightarrow> exn + json option" where
  "cached_api_key_try lib w =
     (case api_key_file w of
        None \<Rightarrow> Inl (IOError ''cannot open the api key file'')
      | Some s \<Rightarrow>
          (case loads lib s of
             Inl m \<Rightarrow> Inl (JSONDecodeError m)
           | Inr api_key_info \<Rightarrow>
               (case py_get api_key_info ''expires_at'' (JInt 0) of
                  Inl e \<Rightarrow> Inl e
                | Inr expires_at \<Rightarrow>
                    (case py_gt expires_at (clock w) of
                       Inl e \<Rightarrow> Inl e
                     | Inr valid \<Rightarrow>
                         if valid then
                           (case py_get api_key_info ''token'' JNull of
                              Inl e \<Rightarrow> Inl e
                            | Inr t \<Rightarrow> Inr (Some t))
                         else Inr None))))"

text \<open>\<^verbatim>\<open>except (IOError, json.JSONDecodeError, KeyError): pass\<close>\<close>

fun cache_handler_catches :: "exn \<Rightarrow> bool" where
  "cache_handler_catches (IOError m) = True"
| "cache_handler_catches (JSONDecodeError m) = True"
| "cache_handler_catches (KeyError m) = True"
| "cache_handler_catches _ = False"

definition cached_api_key :: "json_lib \<Rightarrow> world \<Rightarrow> exn + json option" where
  "cached_api_key lib w =
     (case cached_api_key_try lib w of
        Inl e \<Rightarrow> if cache_handler_catches e then Inr None else Inl e
      | Inr r \<Rightarrow> Inr r)"

text \<open>The statement \<^verbatim>\<open>with open(self.api_key_file, "w") as f: json.dump(api_key_info, f)\<close>.\<close>

definition save_api_key :: "json_lib \<Rightarrow> json \<Rightarrow> world \<Rightarrow> (exn + unit) \<times> world" where
  "save_api_key lib api_key_info w =
     (if api_key_writable w
      then (Inr (), w\<lparr>api_key_file := Some (dumps lib api_key_info)\<rparr>)
      else (Inl (IOError ''cannot open the api key file for writing''), w))"

text \<open>The second \<^verbatim>\<open>try\<close> of \<^verbatim>\<open>get_api_key\<close>, and its handler.\<close>

definition refresh_and_save_try :: "json_lib \<Rightarrow> world \<Rightarrow> (exn + json) \<times> world" where
  "refresh_and_save_try lib w =
     (case refresh_api_key lib w of
        (Inl e, w') \<Rightarrow> (Inl e, w')
      | (Inr api_key_info, w') \<Rightarrow>
          (case save_api_key lib api_key_info w' of
             (Inl e, w'') \<Rightarrow> (Inl e, w'')
           | (Inr u, w'') \<Rightarrow>
               (case py_get api_key_info ''token'' JNull of
                  Inl e \<Rightarrow> (Inl e, w'')
                | Inr t \<Rightarrow> (Inr t, w''))))"

definition refresh_and_save :: "json_lib \<Rightarrow> world \<Rightarrow> (exn + json) \<times> world" where
  "refresh_and_save lib w =
     (case refresh_and_save_try lib w of
        (Inl e, w') \<Rightarrow> (Inl (Exception (''Failed to get API key: '' @ str_exn e)), w')
      | (Inr t, w') \<Rightarrow> (Inr t, w'))"

definition get_api_key :: "json_lib \<Rightarrow> world \<Rightarrow> (exn + json) \<times> world" where
  "get_api_key lib w =
     (case cached_api_key lib w of
        Inl e \<Rightarrow> (Inl e, w)
      | Inr (Some t) \<Rightarrow> (Inr t, w)
      | Inr None \<Rightarrow> refresh_and_save lib w)"

section \<open>GitHubCopilot\<close>

definition model_id :: string where
  "model_id = ''github-copilot''"

definition MODEL_MAPPINGS :: "(string \<times> string) list" where
  "MODEL_MAPPINGS =
     [(''github-copilot'', ''gpt-4o''),
      (''github-copilot/claude-3-7-sonnet-thought'', ''claude-3-7-sonnet-thought'')]"

definition api_base :: string where
  "api_base = ''https://api.githubcopilot.com''"

subsection \<open>Options\<close>

record options =
  max_tokens :: "int option"
  temperature :: "real option"

definition validate_max_tokens :: "int option \<Rightarrow> exn + int option" where
  "validate_max_tokens mt =
     (case mt of
        None \<Rightarrow> Inr None
      | Some n \<Rightarrow> if n < 1 then Inl (ValueError ''max_tokens must be >= 1'') else Inr (Some n))"

definition validate_temperature :: "real option \<Rightarrow> exn + real option" where
  "validate_temperature t =
     (case t of
        None \<Rightarrow> Inr None
      | Some x \<Rightarrow>
          if \<not> (0 \<le> x \<and> x \<le> 1) then Inl (ValueError ''temperature must be between 0 and 1'')
          else Inr (Some x))"

subsection \<open>The model name\<close>

text \<open>\<^verbatim>\<open>model.split('/', 1)\<close> keeps what follows the first slash.\<close>

definition after_slash :: "string \<Rightarrow> string" where
  "after_slash model = tl (dropWhile (\<lambda>c. c \<noteq> CHR ''/'') model)"

definition get_model_for_api :: "string \<Rightarrow> string" where
  "get_model_for_api model =
     (if List.member model (CHR ''/'') \<and> List.member (map snd MODEL_MAPPINGS) (after_slash model)
      then after_slash model
      else (case map_of MODEL_MAPPINGS model of None \<Rightarrow> ''gpt-4o'' | Some m \<Rightarrow> m))"

subsection \<open>The request\<close>

text \<open>What \<^verbatim>\<open>execute\<close> reads of its arguments: the text and the options of the prompt,
  and of every earlier response of the conversation the text of its prompt and its
  own text. The conversation itself may be \<^verbatim>\<open>None\<close>.\<close>

record prompt =
  prompt_text :: string
  prompt_options :: options

record prior_response =
  prior_prompt :: string
  prior_text :: string

record conversation =
  responses :: "prior_response list"

definition message :: "string \<Rightarrow> string \<Rightarrow> json" where
  "message role content = JObj [(''role'', JStr role), (''content'', JStr content)]"

definition system_preamble :: json where
  "system_preamble = message ''system'' ''You are GitHub Copilot, an AI programming assistant.''"

text \<open>The first loop: a user and an assistant message for every earlier response.\<close>

definition replay :: "conversation option \<Rightarrow> json list" where
  "replay conv =
     (case conv of
        None \<Rightarrow> []
      | Some c \<Rightarrow>
          concat (map (\<lambda>r. [message ''user'' (prior_prompt r),
                            message ''assistant'' (prior_text r)]) (responses c)))"

definition is_system :: "json \<Rightarrow> bool" where
  "is_system msg = (py_get msg ''role'' JNull = Inr (JStr ''system''))"

definition build_messages :: "conversation option \<Rightarrow> prompt \<Rightarrow> json list" where
  "build_messages conv p =
     (let messages = replay conv in
      if messages \<noteq> [] then
        (if \<not> list_ex is_system messages then system_preamble # messages else messages)
          @ [message ''user'' (prompt_text p)]
      else [system_preamble, message ''user'' (prompt_text p)])"

text \<open>\<^verbatim>\<open>prompt.options.max_tokens or 1024\<close> and \<^verbatim>\<open>prompt.options.temperature or 0.7\<close>: the
  default replaces \<^verbatim>\<open>None\<close> and every falsy value.\<close>

definition max_tokens_or_default :: "options \<Rightarrow> int" where
  "max_tokens_or_default opts =
     (case max_tokens opts of None \<Rightarrow> 1024 | Some n \<Rightarrow> if n \<noteq> 0 then n else 1024)"

definition temperature_or_default :: "options \<Rightarrow> real" where
  "temperature_or_default opts =
     (case temperature opts of None \<Rightarrow> 0.7 | Some x \<Rightarrow> if x \<noteq> 0 then x else 0.7)"

definition build_payload :: "prompt \<Rightarrow> bool \<Rightarrow> conversation option \<Rightarrow> json" where
  "build_payload p stream conv =
     JObj [(''model'', JStr (get_model_for_api model_id)),
           (''messages'', JArr (build_messages conv p)),
           (''max_tokens'', JInt (max_tokens_or_default (prompt_options p))),
           (''temperature'', JFloat (temperature_or_default (prompt_options p))),
           (''stream'', JBool stream)]"

text \<open>\<^verbatim>\<open>{**payload, "stream": False}\<close>: the key keeps its place and gets the new value.\<close>

fun dict_set :: "string \<Rightarrow> json \<Rightarrow> (string \<times> json) list \<Rightarrow> (string \<times> json) list" where
  "dict_set k v [] = [(k, v)]"
| "dict_set k v ((k', v') # kvs) = (if k' = k then (k, v) # kvs else (k', v') # dict_set k v kvs)"

fun py_set :: "json \<Rightarrow> string \<Rightarrow> json \<Rightarrow> json" where
  "py_set (JObj kvs) k v = JObj (dict_set k v kvs)"
| "py_set j k v = j"

definition usage_record :: json where
  "usage_record =
     JObj [(''model'', JStr (get_model_for_api model_id)),
           (''usage'', JObj [(''prompt_tokens'', JInt 0),
                             (''completion_tokens'', JInt 0),
                             (''total_tokens'', JInt 0)])]"

definition chat_completions_url :: string where
  "chat_completions_url = api_base @ ''/chat/completions''"

subsection \<open>The diagnostic call\<close>

text \<open>\<open>Some\<close> body when the body is yielded and the generator returns; \<open>None\<close> when the
  call raised or the body is empty, and the streaming request is tried.\<close>

definition diagnostic_call :: "json \<Rightarrow> json \<Rightarrow> event" where
  "diagnostic_call api_key payload =
     Http_Post chat_completions_url (Bearer api_key) (py_set payload ''stream'' (JBool False))"

definition diagnostic_request :: "json \<Rightarrow> json \<Rightarrow> world \<Rightarrow> string option \<times> world" where
  "diagnostic_request api_key payload w =
     (case http_call (diagnostic_call api_key payload) w of
        (Inl e, w') \<Rightarrow> (None, w')
      | (Inr r, w') \<Rightarrow> (if body r \<noteq> [] then Some (body r) else None, w'))"

subsection \<open>The streaming call\<close>

text \<open>The content of the first choice's delta, \<^verbatim>\<open>None\<close> when there are no choices.\<close>

definition delta_content :: "json \<Rightarrow> exn + json" where
  "delta_content json_data =
     (case py_in ''choices'' json_data of
        Inl e \<Rightarrow> Inl e
      | Inr has_choices \<Rightarrow>
          if \<not> has_choices then Inr JNull
          else
            (case py_getitem json_data ''choices'' of
               Inl e \<Rightarrow> Inl e
             | Inr choices \<Rightarrow>
                 if \<not> truthy choices then Inr JNull
                 else
                   (case py_getitem0 choices of
                      Inl e \<Rightarrow> Inl e
                    | Inr choice \<Rightarrow>
                        (case py_get choice ''delta'' (JObj []) of
                           Inl e \<Rightarrow> Inl e
                         | Inr delta \<Rightarrow> py_get delta ''content'' JNull))))"

definition yield :: "json \<Rightarrow> json list \<times> exn option \<Rightarrow> json list \<times> exn option" where
  "yield x r = (x # fst r, snd r)"

text \<open>The loop over \<^verbatim>\<open>stream_response.iter_lines()\<close>: the fragments yielded, and the
  exception that leaves the loop, if any. The second argument is the exception that the
  iteration itself raises after the last line.\<close>

fun process_lines :: "json_lib \<Rightarrow> string list \<Rightarrow> exn option \<Rightarrow> json list \<times> exn option" where
  "process_lines lib [] err = ([], err)"
| "process_lines lib (line # rest) err =
     (if line = [] then process_lines lib rest err
      else if startswith line ''data: '' then
        (if drop 6 line = ''[DONE]'' then ([], None)
         else
           (case loads lib (drop 6 line) of
              Inl m \<Rightarrow> yield (JStr (drop 6 line)) (process_lines lib rest err)
            | Inr json_data \<Rightarrow>
                (case delta_content json_data of
                   Inl e \<Rightarrow> ([], Some e)
                 | Inr content \<Rightarrow>
                     if truthy content then yield content (process_lines lib rest err)
                     else process_lines lib rest err)))
      else yield (JStr line) (process_lines lib rest err))"

text \<open>The two handlers of the streaming \<^verbatim>\<open>try\<close>.\<close>

fun error_message :: "exn \<Rightarrow> string" where
  "error_message (HTTPStatusError m code detail) =
     ''HTTP error: '' @ m @ ''\<newline>Status code: '' @ str_nat code @ ''\<newline>Details: '' @ detail"
| "error_message e = ''Error with GitHub Copilot request: '' @ str_exn e"

definition streaming_call :: "json \<Rightarrow> json \<Rightarrow> event" where
  "streaming_call api_key payload = Http_Stream chat_completions_url (Bearer api_key) payload"

definition streaming_request :: "json_lib \<Rightarrow> json \<Rightarrow> json \<Rightarrow> world \<Rightarrow> json list \<times> world" where
  "streaming_request lib api_key payload w =
     (case http_call (streaming_call api_key payload) w of
        (Inl e, w') \<Rightarrow> ([JStr (error_message e)], w')
      | (Inr r, w') \<Rightarrow>
          (case process_lines lib (lines r) (lines_error r) of
             (fragments, None) \<Rightarrow> (fragments, w')
           | (fragments, Some e) \<Rightarrow> (fragments @ [JStr (error_message e)], w')))"

subsection \<open>execute\<close>

text \<open>
  The generator run to its end: the fragments it yields, the exception it raises to its
  caller (\<open>None\<close> when it finishes), and the world it leaves.
\<close>

definition execute ::
  "json_lib \<Rightarrow> prompt \<Rightarrow> bool \<Rightarrow> conversation option \<Rightarrow> world \<Rightarrow> (json list \<times> exn option) \<times> world" where
  "execute lib p stream conv w =
     (case get_api_key lib w of
        (Inl e, w1) \<Rightarrow>
          (([JStr (''Error getting GitHub Copilot API key: '' @ str_exn e)], None), w1)
      | (Inr api_key, w1) \<Rightarrow>
          (case py_slice_len api_key of
             Inl e \<Rightarrow> (([], Some e), w1)
           | Inr n \<Rightarrow>
               (let payload = build_payload p stream conv;
                    w2 = w1\<lparr>response_sink := Some usage_record\<rparr>
                in case diagnostic_request api_key payload w2 of
                     (Some text_content, w3) \<Rightarrow> (([JStr text_content], None), w3)
                   | (None, w3) \<Rightarrow>
                       (case streaming_request lib api_key payload w3 of
                          (fragments, w4) \<Rightarrow> ((fragments, None), w4)))))"

section \<open>A JSON library\<close>

text \<open>
  A decoder and an encoder for the part of JSON the plugin exchanges with its servers:
  \<^verbatim>\<open>null\<close>, \<^verbatim>\<open>true\<close>, \<^verbatim>\<open>false\<close>, integers, strings with the one-letter escapes, arrays
  and objects (a repeated key keeps its first place and its last value, as a Python
  dictionary does). Numbers with a fraction or an exponent and \<^verbatim>\<open>\u\<close> escapes are
  rejected by the decoder, and the encoder writes a float by its integer part: the
  library is exact on documents whose numbers are integers. It instantiates the
  \<open>json_lib\<close> parameter wherever a statement is evaluated at a concrete input.
\<close>

definition dquote :: char where
  "dquote = CHR 0x22"

definition backslash :: char where
  "backslash = CHR 0x5C"

definition is_json_ws :: "char \<Rightarrow> bool" where
  "is_json_ws c = List.member [CHR 0x20, CHR 0x09, CHR 0x0A, CHR 0x0D] c"

definition skip_ws :: "string \<Rightarrow> string" where
  "skip_ws s = dropWhile is_json_ws s"

definition unescape :: "char \<Rightarrow> char option" where
  "unescape c =
     (if c = dquote then Some dquote
      else if c = backslash then Some backslash
      else if c = CHR ''/'' then Some (CHR ''/'')
      else if c = CHR ''n'' then Some (CHR 0x0A)
      else if c = CHR ''t'' then Some (CHR 0x09)
      else if c = CHR ''r'' then Some (CHR 0x0D)
      else if c = CHR ''b'' then Some (CHR 0x08)
      else if c = CHR ''f'' then Some (CHR 0x0C)
      else None)"

text \<open>The characters of a string up to its closing quote, and what follows it.\<close>

fun scan_string :: "string \<Rightarrow> string \<Rightarrow> (string \<times> string) option" where
  "scan_string [] acc = None"
| "scan_string [c] acc = (if c = dquote then Some (acc, []) else None)"
| "scan_string (c # d # cs) acc =
     (if c = dquote then Some (acc, d # cs)
      else if c = backslash then
        (case unescape d of None \<Rightarrow> None | Some x \<Rightarrow> scan_string cs (acc @ [x]))
      else if (of_char c :: nat) < 32 then None
      else scan_string (d # cs) (acc @ [c]))"

definition is_digit :: "char \<Rightarrow> bool" where
  "is_digit c = (48 \<le> (of_char c :: nat) \<and> (of_char c :: nat) \<le> 57)"

definition digits_value :: "string \<Rightarrow> nat" where
  "digits_value ds = foldl (\<lambda>n c. 10 * n + ((of_char c :: nat) - 48)) 0 ds"

text \<open>A run of digits without a leading zero, not followed by a fraction or an exponent.\<close>

definition scan_nat :: "string \<Rightarrow> (nat \<times> string) option" where
  "scan_nat s =
     (let ds = takeWhile is_digit s; rest = dropWhile is_digit s
      in if ds = [] \<or> (length ds > 1 \<and> hd ds = CHR ''0'') then None
         else if rest \<noteq> [] \<and> List.member [CHR ''.'', CHR ''e'', CHR ''E''] (hd rest) then None
         else Some (digits_value ds, rest))"

definition scan_number :: "string \<Rightarrow> (json \<times> string) option" where
  "scan_number s =
     (if s \<noteq> [] \<and> hd s = CHR ''-'' then
        (case scan_nat (tl s) of None \<Rightarrow> None | Some (n, rest) \<Rightarrow> Some (JInt (- int n), rest))
      else
        (case scan_nat s of None \<Rightarrow> None | Some (n, rest) \<Rightarrow> Some (JInt (int n), rest)))"

text \<open>The recursive descent, bounded by a number of steps that \<open>json_loads\<close> chooses
  larger than any document of the given length needs.\<close>

fun scan_value :: "nat \<Rightarrow> string \<Rightarrow> (json \<times> string) option"
  and scan_elements :: "nat \<Rightarrow> string \<Rightarrow> json list \<Rightarrow> (json \<times> string) option"
  and scan_members :: "nat \<Rightarrow> string \<Rightarrow> (string \<times> json) list \<Rightarrow> (json \<times> string) option"
where
  "scan_value 0 s = None"
| "scan_value (Suc n) s =
     (let t = skip_ws s in
      if t = [] then None
      else if hd t = dquote then
        (case scan_string (tl t) [] of None \<Rightarrow> None | Some (x, rest) \<Rightarrow> Some (JStr x, rest))
      else if hd t = CHR ''['' then
        (if startswith (skip_ws (tl t)) '']'' then Some (JArr [], tl (skip_ws (tl t)))
         else scan_elements n (tl t) [])
      else if hd t = CHR ''{'' then
        (if startswith (skip_ws (tl t)) ''}'' then Some (JObj [], tl (skip_ws (tl t)))
         else scan_members n (tl t) [])
      else if startswith t ''null'' then Some (JNull, drop 4 t)
      else if startswith t ''true'' then Some (JBool True, drop 4 t)
      else if startswith t ''false'' then Some (JBool False, drop 5 t)
      else scan_number t)"
| "scan_elements 0 s acc = None"
| "scan_elements (Suc n) s acc =
     (case scan_value n s of
        None \<Rightarrow> None
      | Some (v, rest) \<Rightarrow>
          (let t = skip_ws rest in
           if startswith t '','' then scan_elements n (tl t) (acc @ [v])
           else if startswith t '']'' then Some (JArr (acc @ [v]), tl t)
           else None))"
| "scan_members 0 s acc = None"
| "scan_members (Suc n) s acc =
     (let t = skip_ws s in
      if \<not> startswith t [dquote] then None
      else
        (case scan_string (tl t) [] of
           None \<Rightarrow> None
         | Some (k, rest) \<Rightarrow>
             (let t' = skip_ws rest in
              if \<not> startswith t' '':'' then None
              else
                (case scan_value n (tl t') of
                   None \<Rightarrow> None
                 | Some (v, rest') \<Rightarrow>
                     (let t'' = skip_ws rest' in
                      if startswith t'' '','' then scan_members n (tl t'') (dict_set k v acc)
                      else if startswith t'' ''}'' then Some (JObj (dict_set k v acc), tl t'')
                      else None)))))"

definition json_loads :: "string \<Rightarrow> string + json" where
  "json_loads s =
     (case scan_value (2 * length s + 2) s of
        None \<Rightarrow> Inl ''Expecting value''
      | Some (j, rest) \<Rightarrow> if skip_ws rest = [] then Inr j else Inl ''Extra data'')"

definition escape_char :: "char \<Rightarrow> string" where
  "escape_char c =
     (if c = dquote then [backslash, dquote]
      else if c = backslash then [backslash, backslash]
      else if c = CHR 0x0A then [backslash, CHR ''n'']
      else if c = CHR 0x09 then [backslash, CHR ''t'']
      else if c = CHR 0x0D then [backslash, CHR ''r'']
      else if c = CHR 0x08 then [backslash, CHR ''b'']
      else if c = CHR 0x0C then [backslash, CHR ''f'']
      else [c])"

definition dumps_string :: "string \<Rightarrow> string" where
  "dumps_string s = [dquote] @ concat (map escape_char s) @ [dquote]"

definition str_int :: "int \<Rightarrow> string" where
  "str_int i = (if i < 0 then ''-'' @ str_nat (nat (- i)) else str_nat (nat i))"

fun dumps_value :: "json \<Rightarrow> string"
  and dumps_items :: "json list \<Rightarrow> string"
  and dumps_members :: "(string \<times> json) list \<Rightarrow> string"
where
  "dumps_value JNull = ''null''"
| "dumps_value (JBool b) = (if b then ''true'' else ''false'')"
| "dumps_value (JInt i) = str_int i"
| "dumps_value (JFloat x) = str_int \<lfloor>x\<rfloor> @ ''.0''"
| "dumps_value (JStr s) = dumps_string s"
| "dumps_value (JArr xs) = ''['' @ dumps_items xs @ '']''"
| "dumps_value (JObj kvs) = ''{'' @ dumps_members kvs @ ''}''"
| "dumps_items [] = []"
| "dumps_items [x] = dumps_value x"
| "dumps_items (x # y # ys) = dumps_value x @ '', '' @ dumps_items (y # ys)"
| "dumps_members [] = []"
| "dumps_members [(k, v)] = dumps_string k @ '': '' @ dumps_value v"
| "dumps_members ((k, v) # kv # kvs) =
     dumps_string k @ '': '' @ dumps_value v @ '', '' @ dumps_members (kv # kvs)"

definition python_json :: json_lib where
  "python_json = \<lparr>loads = json_loads, dumps = dumps_value\<rparr>"

section \<open>Predicates and inputs of the statements\<close>

text \<open>A poll response that is well formed and pending: the call returns with a
  success status, and the body is an object without an access token whose \<^verbatim>\<open>error\<close> is
  \<^verbatim>\<open>authorization_pending\<close>.\<close>

definition authorization_pending :: "json_lib \<Rightarrow> http_reply \<Rightarrow> bool" where
  "authorization_pending lib reply =
     (case reply of
        Raises e \<Rightarrow> False
      | Returns r \<Rightarrow>
          is_success r \<and>
          (case loads lib (body r) of
             Inr (JObj kvs) \<Rightarrow>
               map_of kvs ''access_token'' = None \<and>
               map_of kvs ''error'' = Some (JStr ''authorization_pending'')
           | _ \<Rightarrow> False))"

text \<open>The record in the api key file declares an expiry later than the clock.\<close>

definition record_unexpired :: "json_lib \<Rightarrow> world \<Rightarrow> bool" where
  "record_unexpired lib w =
     (case api_key_file w of
        None \<Rightarrow> False
      | Some s \<Rightarrow>
          (case loads lib s of
             Inl m \<Rightarrow> False
           | Inr info \<Rightarrow>
               (case py_get info ''expires_at'' (JInt 0) of
                  Inl e \<Rightarrow> False
                | Inr x \<Rightarrow> py_gt x (clock w) = Inr True)))"

text \<open>A response with status 200 and the given body, and one that streams the given
  lines.\<close>

definition ok_response :: "string \<Rightarrow> http_response" where
  "ok_response b =
     \<lparr>status_code = 200, status_message = ''OK'', body = b, lines = [], lines_error = None\<rparr>"

definition stream_response :: "string list \<Rightarrow> http_response" where
  "stream_response ls =
     \<lparr>status_code = 200, status_message = ''OK'', body = [], lines = ls, lines_error = None\<rparr>"

text \<open>A machine at time 100 with a stored access token, no api key file, and a network
  on which every call fails.\<close>

definition offline_world :: world where
  "offline_world =
     \<lparr>access_token_file = Some ''gho_abc'', access_token_writable = True,
      api_key_file = None, api_key_writable = True, clock = 100,
      http = (\<lambda>i. Raises (TransportError ''connection refused'')),
      ncalls = 0, trace = [], response_sink = None\<rparr>"

text \<open>The same machine where every call is answered with a pending authorization.\<close>

definition pending_world :: world where
  \<open>pending_world =
     offline_world\<lparr>http := (\<lambda>i. Returns (ok_response ''{"error": "authorization_pending"}''))\<rparr>\<close>

text \<open>The number a timestamp field holds, when it holds one.\<close>

fun timestamp :: "json \<Rightarrow> real option" where
  "timestamp (JInt i) = Some (real_of_int i)"
| "timestamp (JFloat x) = Some x"
| "timestamp _ = None"

text \<open>The same machine with a network that answers every call with status 200 and the
  given body, and the offline machine with the given text in its api key file.\<close>

definition key_server_world :: "string \<Rightarrow> world" where
  "key_server_world b = offline_world\<lparr>http := (\<lambda>i. Returns (ok_response b))\<rparr>"

definition cached_world :: "string \<Rightarrow> world" where
  "cached_world s = offline_world\<lparr>api_key_file := Some s\<rparr>"

text \<open>A prompt with the default options, and a conversation of one earlier exchange.\<close>

definition hello_prompt :: prompt where
  "hello_prompt =
     \<lparr>prompt_text = ''hello'',
      prompt_options = \<lparr>max_tokens = Some 1024, temperature = Some 0.7\<rparr>\<rparr>"

definition one_exchange :: conversation where
  "one_exchange = \<lparr>responses = [\<lparr>prior_prompt = ''hi'', prior_text = ''Hello!''\<rparr>]\<rparr>"

text \<open>A machine with a valid cached key \<open>k1\<close> and the given network.\<close>

definition keyed_world :: "(nat \<Rightarrow> http_reply) \<Rightarrow> world" where
  \<open>keyed_world net =
     offline_world\<lparr>api_key_file := Some ''{"token": "k1", "expires_at": 3700}'', http := net\<rparr>\<close>

text \<open>Networks: every call answered with the given body; every call answered with the
  given stream of lines; the first call failing and the second streaming.\<close>

definition body_net :: "string \<Rightarrow> nat \<Rightarrow> http_reply" where
  "body_net b i = Returns (ok_response b)"

definition lines_net :: "string list \<Rightarrow> nat \<Rightarrow> http_reply" where
  "lines_net ls i = Returns (stream_response ls)"

definition failing_diagnostic_net :: "nat \<Rightarrow> http_reply" where
  "failing_diagnostic_net i =
     (if i = 0 then Raises (TransportError ''timed out'')
      else Returns (stream_response [''data: [DONE]'']))"

text \<open>The prompt \<open>hello_prompt\<close> with the temperature set to zero.\<close>

definition zero_temperature_prompt :: prompt where
  "zero_temperature_prompt =
     \<lparr>prompt_text = ''hello'',
      prompt_options = \<lparr>max_tokens = Some 1024, temperature = Some 0\<rparr>\<rparr>"

section \<open>Evaluation of the JSON library\<close>

lemma scan_value_step:
  "0 < n \<Longrightarrow> scan_value n s =
     (let t = skip_ws s in
      if t = [] then None
      else if hd t = dquote then
        (case scan_string (tl t) [] of None \<Rightarrow> None | Some (x, rest) \<Rightarrow> Some (JStr x, rest))
      else if hd t = CHR ''['' then
        (if startswith (skip_ws (tl t)) '']'' then Some (JArr [], tl (skip_ws (tl t)))
         else scan_elements (n - 1) (tl t) [])
      else if hd t = CHR ''{'' then
        (if startswith (skip_ws (tl t)) ''}'' then Some (JObj [], tl (skip_ws (tl t)))
         else scan_members (n - 1) (tl t) [])
      else if startswith t ''null'' then Some (JNull, drop 4 t)
      else if startswith t ''true'' then Some (JBool True, drop 4 t)
      else if startswith t ''false'' then Some (JBool False, drop 5 t)
      else scan_number t)"
  by (cases n) (simp_all cong: if_cong option.case_cong)

lemma scan_elements_step:
  "0 < n \<Longrightarrow> scan_elements n s acc =
     (case scan_value (n - 1) s of
        None \<Rightarrow> None
      | Some (v, rest) \<Rightarrow>
          (let t = skip_ws rest in
           if startswith t '','' then scan_elements (n - 1) (tl t) (acc @ [v])
           else if startswith t '']'' then Some (JArr (acc @ [v]), tl t)
           else None))"
  by (cases n) (simp_all cong: if_cong option.case_cong)

lemma scan_members_step:
  "0 < n \<Longrightarrow> scan_members n s acc =
     (let t = skip_ws s in
      if \<not> startswith t [dquote] then None
      else
        (case scan_string (tl t) [] of
           None \<Rightarrow> None
         | Some (k, rest) \<Rightarrow>
             (let t' = skip_ws rest in
              if \<not> startswith t' '':'' then None
              else
                (case scan_value (n - 1) (tl t') of
                   None \<Rightarrow> None
                 | Some (v, rest') \<Rightarrow>
                     (let t'' = skip_ws rest' in
                      if startswith t'' '','' then scan_members (n - 1) (tl t'') (dict_set k v acc)
                      else if startswith t'' ''}'' then Some (JObj (dict_set k v acc), tl t'')
                      else None)))))"
  by (cases n) (simp_all cong: if_cong option.case_cong)

lemmas json_eval =
  python_json_def json_loads_def scan_value_step scan_elements_step scan_members_step
  skip_ws_def is_json_ws_def startswith_def dquote_def backslash_def unescape_def
  scan_number_def scan_nat_def is_digit_def digits_value_def
  dumps_string_def escape_char_def str_int_def digit_char_def

section \<open>The polling loop\<close>

lemma poll_try_pending:
  assumes "authorization_pending lib (http w (ncalls w))"
  shows "poll_try lib dc w =
           (Inr None, w\<lparr>ncalls := Suc (ncalls w), trace := trace w @ [poll_request dc]\<rparr>)"
  using assms
  by (auto simp: authorization_pending_def poll_try_def fetch_json_def http_call_def
        raise_for_status_def response_json_of_def Let_def
      split: http_reply.splits sum.splits json.splits)

lemma poll_loop_pending:
  "(\<forall>i<n. authorization_pending lib (http w (ncalls w + i))) \<Longrightarrow>
   poll_loop lib dc n w =
     (Inl (Exception ''Timed out waiting for user to authorize the device''),
      w\<lparr>clock := clock w + 5 * real n, ncalls := ncalls w + n,
        trace := trace w @ concat (replicate n [poll_request dc, Sleep 5])\<rparr>)"
proof (induction n arbitrary: w)
  case 0
  then show ?case by simp
next
  case (Suc n)
  let ?w1 = "sleep 5 (w\<lparr>ncalls := Suc (ncalls w), trace := trace w @ [poll_request dc]\<rparr>)"
  from Suc.prems have first: "authorization_pending lib (http w (ncalls w))"
    by (metis add.right_neutral zero_less_Suc)
  have rest: "\<forall>i<n. authorization_pending lib (http ?w1 (ncalls ?w1 + i))"
    using Suc.prems by (auto simp: sleep_def)
  show ?case
    using Suc.IH [OF rest] poll_try_pending [OF first, of dc]
    by (simp add: sleep_def algebra_simps)
qed

text \<open>
  C3. If each of the next twelve calls returns a well-formed pending response, then
  \<^verbatim>\<open>_poll_for_access_token\<close> makes exactly twelve POST requests to the access token
  endpoint, sleeps five seconds after each of them, and then raises the time-out
  exception: the loop ends after sixty seconds of sleep.
\<close>

theorem poll_pending_times_out:
  assumes "\<forall>i<12. authorization_pending lib (http w (ncalls w + i))"
  shows "poll_for_access_token lib device_code w =
           (Inl (Exception ''Timed out waiting for user to authorize the device''),
            w\<lparr>clock := clock w + 60, ncalls := ncalls w + 12,
              trace := trace w @ concat (replicate 12 [poll_request device_code, Sleep 5])\<rparr>)"
  using poll_loop_pending [OF assms [folded max_attempts_def], of device_code]
  by (simp add: poll_for_access_token_def max_attempts_def)

theorem poll_pending_times_out_witness:
  "authorization_pending python_json (http pending_world 11) \<and>
   poll_for_access_token python_json (JStr ''dc'') pending_world =
     (Inl (Exception ''Timed out waiting for user to authorize the device''),
      pending_world\<lparr>clock := 160, ncalls := 12,
        trace := concat (replicate 12 [poll_request (JStr ''dc''), Sleep 5])\<rparr>)"
proof -
  have pending: "authorization_pending python_json (http pending_world i)" for i
    by (simp add: pending_world_def offline_world_def authorization_pending_def
          ok_response_def is_success_def json_eval)
  then have "\<forall>i<12. authorization_pending python_json (http pending_world (ncalls pending_world + i))"
    by simp
  from poll_pending_times_out [OF this, of "JStr ''dc''"] pending [of 11]
  show ?thesis by (simp add: pending_world_def offline_world_def)
qed

section \<open>Network calls of the credential functions\<close>

text \<open>Every request adds one to the count of calls; a login and a refresh make at least
  one request each.\<close>

lemma fetch_json_ncalls:
  "ncalls (snd (fetch_json lib ev w)) = Suc (ncalls w)"
  by (simp add: fetch_json_def http_call_def Let_def split: http_reply.splits sum.splits)

lemma refresh_try_ncalls:
  "ncalls (snd (refresh_try lib headers w)) = Suc (ncalls w)"
  using fetch_json_ncalls [of lib "Http_Get github_api_key_url headers" w]
  by (auto simp: refresh_try_def split: prod.splits sum.splits)

lemma refresh_loop_ncalls:
  "ncalls w + (if n = 0 then 0 else 1) \<le> ncalls (snd (refresh_loop lib headers n w))"
proof (induction n arbitrary: w)
  case 0
  then show ?case by simp
next
  case (Suc n)
  obtain r w' where t: "refresh_try lib headers w = (r, w')"
    by (cases "refresh_try lib headers w")
  with refresh_try_ncalls [of lib headers w] have w': "ncalls w' = Suc (ncalls w)"
    by simp
  show ?case
  proof (cases "\<exists>j. r = Inr (Some j)")
    case True
    with t w' show ?thesis by auto
  next
    case False
    let ?w'' = "if max_retries - Suc n < max_retries - 1 then sleep 1 w' else w'"
    from False t have "refresh_loop lib headers (Suc n) w = refresh_loop lib headers n ?w''"
      by (auto split: sum.splits option.splits)
    moreover have "ncalls ?w'' = Suc (ncalls w)"
      using w' by (simp add: sleep_def)
    ultimately show ?thesis
      using Suc.IH [of ?w''] by (simp split: if_splits)
  qed
qed

lemma poll_try_ncalls:
  "ncalls (snd (poll_try lib dc w)) = Suc (ncalls w)"
  using fetch_json_ncalls [of lib "poll_request dc" w]
  by (auto simp: poll_try_def split: prod.splits sum.splits)

lemma poll_loop_ncalls:
  "ncalls w \<le> ncalls (snd (poll_loop lib dc n w))"
proof (induction n arbitrary: w)
  case 0
  then show ?case by simp
next
  case (Suc n)
  obtain r w' where t: "poll_try lib dc w = (r, w')"
    by (cases "poll_try lib dc w")
  with poll_try_ncalls [of lib dc w] have w': "ncalls w' = Suc (ncalls w)"
    by simp
  show ?case
    using t w' Suc.IH [of "sleep 5 w'"]
    by (auto simp: sleep_def split: sum.splits option.splits)
qed

lemma get_device_code_ncalls:
  "ncalls (snd (get_device_code lib w)) = Suc (ncalls w)"
  using fetch_json_ncalls [of lib device_code_request w]
  by (auto simp: get_device_code_def get_device_code_try_def split: prod.splits sum.splits)

lemma login_ncalls:
  "ncalls w < ncalls (snd (login lib w))"
proof -
  obtain r w' where t: "get_device_code lib w = (r, w')"
    by (cases "get_device_code lib w")
  with get_device_code_ncalls [of lib w] have w': "ncalls w' = Suc (ncalls w)"
    by simp
  show ?thesis
    using t w' poll_loop_ncalls [of w' lib _ max_attempts]
    by (auto simp: login_def poll_for_access_token_def Suc_le_eq split: sum.splits)
qed

lemma login_try_ncalls:
  "ncalls w < ncalls (snd (login_try lib w))"
  using login_ncalls [of w lib]
  by (auto simp: login_try_def save_access_token_def split: prod.splits sum.splits json.splits)

lemma login_loop_ncalls:
  "ncalls w + (if n = 0 then 0 else 1) \<le> ncalls (snd (login_loop lib n w))"
proof (induction n arbitrary: w)
  case 0
  then show ?case by simp
next
  case (Suc n)
  obtain r w' where t: "login_try lib w = (r, w')"
    by (cases "login_try lib w")
  with login_try_ncalls [of w lib] have w': "ncalls w < ncalls w'"
    by simp
  show ?case
    using t w' Suc.IH [of w']
    by (auto split: sum.splits if_splits)
qed

lemma get_access_token_ncalls:
  "ncalls w \<le> ncalls (snd (get_access_token lib w))"
  "get_access_token lib w = (Inl e, w') \<Longrightarrow> ncalls w < ncalls w'"
  using login_loop_ncalls [of w 3 lib]
  by (auto simp: get_access_token_def split: option.splits if_splits)

lemma refresh_api_key_ncalls:
  "ncalls w < ncalls (snd (refresh_api_key lib w))"
proof -
  obtain r w' where t: "get_access_token lib w = (r, w')"
    by (cases "get_access_token lib w")
  show ?thesis
  proof (cases r)
    case (Inl e)
    with t get_access_token_ncalls(2) [of lib w e w'] show ?thesis
      by (simp add: refresh_api_key_def)
  next
    case (Inr tok)
    with t get_access_token_ncalls(1) [of w lib]
      refresh_loop_ncalls [of w' max_retries lib "get_github_headers (Some tok)"]
    show ?thesis
      by (simp add: refresh_api_key_def max_retries_def)
  qed
qed

lemma refresh_and_save_ncalls:
  "ncalls w < ncalls (snd (refresh_and_save lib w))"
  using refresh_api_key_ncalls [of w lib]
  by (auto simp: refresh_and_save_def refresh_and_save_try_def save_api_key_def
      split: prod.splits sum.splits if_splits)

section \<open>The API key\<close>

lemma poll_loop_step:
  "0 < n \<Longrightarrow> poll_loop lib device_code n w =
     (case poll_try lib device_code w of
        (Inl e, w') \<Rightarrow> (Inl (Exception (''Failed to get access token: '' @ str_exn e)), w')
      | (Inr (Some t), w') \<Rightarrow> (Inr t, w')
      | (Inr None, w') \<Rightarrow> poll_loop lib device_code (n - 1) (sleep 5 w'))"
  by (cases n) (simp_all split: prod.splits sum.splits option.splits)

lemma login_loop_step:
  "0 < n \<Longrightarrow> login_loop lib n w =
     (case login_try lib w of
        (Inr t, w') \<Rightarrow> (Inr t, w')
      | (Inl e, w') \<Rightarrow>
          if 3 - n = 2
          then (Inl (Exception ''Failed to get access token after 3 attempts''), w')
          else login_loop lib (n - 1) w')"
  by (cases n) (simp_all split: prod.splits sum.splits option.splits)

lemma refresh_loop_step:
  "0 < n \<Longrightarrow> refresh_loop lib headers n w =
     (case refresh_try lib headers w of
        (Inr (Some response_json), w') \<Rightarrow> (Inr response_json, w')
      | (r, w') \<Rightarrow>
          refresh_loop lib headers (n - 1)
            (if max_retries - n < max_retries - 1 then sleep 1 w' else w'))"
  by (cases n) (simp_all split: prod.splits sum.splits option.splits)

lemmas auth_eval =
  get_api_key_def cached_api_key_def cached_api_key_try_def refresh_and_save_def
  refresh_and_save_try_def save_api_key_def refresh_api_key_def refresh_try_def
  max_retries_def refresh_loop_step get_access_token_def strip_def is_space_def
  get_github_headers_def fetch_json_def http_call_def raise_for_status_def is_success_def
  response_json_of_def ok_response_def offline_world_def key_server_world_def sleep_def
  record_unexpired_def cached_world_def

lemma py_gt_timestamp:
  "timestamp x = Some e \<Longrightarrow> py_gt x t = Inr (e > t)"
  by (cases x) simp_all

lemma cached_api_key_object:
  assumes "api_key_file w = Some s" and "loads lib s = Inr (JObj kvs)"
    and "py_gt (case map_of kvs ''expires_at'' of None \<Rightarrow> JInt 0 | Some x \<Rightarrow> x) (clock w) = Inr valid"
  shows "cached_api_key lib w =
           Inr (if valid then Some (case map_of kvs ''token'' of None \<Rightarrow> JNull | Some t \<Rightarrow> t)
                else None)"
  using assms by (simp add: cached_api_key_def cached_api_key_try_def)

lemma cached_api_key_timestamp:
  assumes "api_key_file w = Some s" and "loads lib s = Inr (JObj kvs)"
    and "map_of kvs ''expires_at'' = Some x" and "timestamp x = Some e"
  shows "cached_api_key lib w =
           Inr (if e > clock w then Some (case map_of kvs ''token'' of None \<Rightarrow> JNull | Some t \<Rightarrow> t)
                else None)"
  using cached_api_key_object [OF assms(1,2), of "e > clock w"] assms(3) py_gt_timestamp [OF assms(4)]
  by simp

lemma cached_api_key_Some:
  assumes "cached_api_key lib w = Inr (Some t)"
  shows "record_unexpired lib w"
  using assms
  by (auto simp: cached_api_key_def cached_api_key_try_def record_unexpired_def
      split: option.splits sum.splits if_splits)

lemma get_api_key_cases:
  assumes "get_api_key lib w = (Inr t, w')"
  shows "(cached_api_key lib w = Inr (Some t) \<and> w' = w) \<or>
         (cached_api_key lib w = Inr None \<and> refresh_and_save lib w = (Inr t, w'))"
  using assms by (auto simp: get_api_key_def split: sum.splits option.splits)

lemma get_api_key_expired:
  "cached_api_key lib w = Inr None \<Longrightarrow> get_api_key lib w = refresh_and_save lib w"
  by (simp add: get_api_key_def)

lemma get_api_key_cached:
  "cached_api_key lib w = Inr (Some t) \<Longrightarrow> get_api_key lib w = (Inr t, w)"
  by (simp add: get_api_key_def)

lemma refresh_and_save_returns:
  assumes "refresh_api_key lib w = (Inr (JObj kvs), w1)" and "api_key_writable w1"
  shows "refresh_and_save lib w =
           (Inr (case map_of kvs ''token'' of None \<Rightarrow> JNull | Some t \<Rightarrow> t),
            w1\<lparr>api_key_file := Some (dumps lib (JObj kvs))\<rparr>)"
  using assms by (simp add: refresh_and_save_def refresh_and_save_try_def save_api_key_def)

text \<open>
  C2 (amended). A token that \<^verbatim>\<open>get_api_key\<close> returns comes either from the cached record,
  and then that record declares an expiry strictly later than the clock and nothing is
  changed, or from the refresh path. A cached record whose expiry is not later than the
  clock, for example \<open>now - 1\<close>, sends the call to the refresh path; one whose expiry is
  later, for example \<open>now + 3600\<close>, has its token returned. On the refresh path the token
  of the record the server sent is returned and the record is persisted whatever expiry
  it declares: no comparison with the clock is made there.
\<close>

theorem cached_key_is_unexpired:
  "(get_api_key lib w = (Inr t, w') \<longrightarrow>
      (cached_api_key lib w = Inr (Some t) \<and> w' = w \<and> record_unexpired lib w) \<or>
      (cached_api_key lib w = Inr None \<and> refresh_and_save lib w = (Inr t, w'))) \<and>
   (api_key_file w = Some s \<and> loads lib s = Inr (JObj kvs) \<and>
    map_of kvs ''expires_at'' = Some x \<and> timestamp x = Some e \<longrightarrow>
      (e \<le> clock w \<longrightarrow> get_api_key lib w = refresh_and_save lib w) \<and>
      (e = clock w - 1 \<longrightarrow> get_api_key lib w = refresh_and_save lib w) \<and>
      (e > clock w \<and> map_of kvs ''token'' = Some tok \<longrightarrow> get_api_key lib w = (Inr tok, w)) \<and>
      (e = clock w + 3600 \<and> map_of kvs ''token'' = Some tok \<longrightarrow> get_api_key lib w = (Inr tok, w))) \<and>
   (refresh_api_key lib w = (Inr (JObj kvs'), w1) \<and> api_key_writable w1 \<and>
    map_of kvs' ''token'' = Some tok' \<longrightarrow>
      refresh_and_save lib w = (Inr tok', w1\<lparr>api_key_file := Some (dumps lib (JObj kvs'))\<rparr>))"
proof (intro conjI impI)
  assume "get_api_key lib w = (Inr t, w')"
  from get_api_key_cases [OF this] cached_api_key_Some [of lib w t]
  show "(cached_api_key lib w = Inr (Some t) \<and> w' = w \<and> record_unexpired lib w) \<or>
        (cached_api_key lib w = Inr None \<and> refresh_and_save lib w = (Inr t, w'))"
    by blast
next
  assume a: "api_key_file w = Some s \<and> loads lib s = Inr (JObj kvs) \<and>
    map_of kvs ''expires_at'' = Some x \<and> timestamp x = Some e"
  then have c: "cached_api_key lib w =
      Inr (if e > clock w then Some (case map_of kvs ''token'' of None \<Rightarrow> JNull | Some t \<Rightarrow> t)
           else None)"
    using cached_api_key_timestamp by blast
  { assume "e \<le> clock w"
    with c show "get_api_key lib w = refresh_and_save lib w"
      by (simp add: get_api_key_expired) }
  { assume "e = clock w - 1"
    with c show "get_api_key lib w = refresh_and_save lib w"
      by (simp add: get_api_key_expired) }
  { assume "e > clock w \<and> map_of kvs ''token'' = Some tok"
    with c show "get_api_key lib w = (Inr tok, w)"
      by (simp add: get_api_key_cached) }
  { assume "e = clock w + 3600 \<and> map_of kvs ''token'' = Some tok"
    with c show "get_api_key lib w = (Inr tok, w)"
      by (simp add: get_api_key_cached) }
next
  assume "refresh_api_key lib w = (Inr (JObj kvs'), w1) \<and> api_key_writable w1 \<and>
    map_of kvs' ''token'' = Some tok'"
  then show "refresh_and_save lib w = (Inr tok', w1\<lparr>api_key_file := Some (dumps lib (JObj kvs'))\<rparr>)"
    using refresh_and_save_returns [of lib w kvs' w1] by simp
qed

theorem cached_key_is_unexpired_witness:
  \<open>get_api_key python_json (cached_world ''{"token": "cached", "expires_at": 3700}'') =
     (Inr (JStr ''cached''), cached_world ''{"token": "cached", "expires_at": 3700}'') \<and>
   record_unexpired python_json (cached_world ''{"token": "cached", "expires_at": 3700}'') \<and>
   get_api_key python_json (cached_world ''{"token": "cached", "expires_at": 99}'') =
     refresh_and_save python_json (cached_world ''{"token": "cached", "expires_at": 99}'') \<and>
   refresh_and_save python_json (key_server_world ''{"token": "t", "expires_at": 0}'') =
     (Inr (JStr ''t''),
      (key_server_world ''{"token": "t", "expires_at": 0}'')
        \<lparr>api_key_file := Some ''{"token": "t", "expires_at": 0}'', ncalls := 1,
         trace := [Http_Get github_api_key_url (Token (JStr ''gho_abc''))]\<rparr>)\<close>
proof -
  let ?fresh = \<open>cached_world ''{"token": "cached", "expires_at": 3700}''\<close>
  let ?stale = \<open>cached_world ''{"token": "cached", "expires_at": 99}''\<close>
  let ?server = \<open>key_server_world ''{"token": "t", "expires_at": 0}''\<close>
  have fresh: \<open>api_key_file ?fresh = Some ''{"token": "cached", "expires_at": 3700}'' \<and>
      loads python_json ''{"token": "cached", "expires_at": 3700}'' =
        Inr (JObj [(''token'', JStr ''cached''), (''expires_at'', JInt 3700)]) \<and> clock ?fresh = 100\<close>
    by (simp add: cached_world_def offline_world_def json_eval)
  have stale: \<open>api_key_file ?stale = Some ''{"token": "cached", "expires_at": 99}'' \<and>
      loads python_json ''{"token": "cached", "expires_at": 99}'' =
        Inr (JObj [(''token'', JStr ''cached''), (''expires_at'', JInt 99)]) \<and> clock ?stale = 100\<close>
    by (simp add: cached_world_def offline_world_def json_eval)
  have 1: "get_api_key python_json ?fresh = (Inr (JStr ''cached''), ?fresh)"
    using cached_key_is_unexpired [where lib = python_json and w = ?fresh
      and tok = "JStr ''cached''" and x = "JInt 3700" and e = 3700
      and s = \<open>''{"token": "cached", "expires_at": 3700}''\<close>
      and kvs = "[(''token'', JStr ''cached''), (''expires_at'', JInt 3700)]"] fresh
    by simp
  have hit: "cached_api_key python_json ?fresh = Inr (Some (JStr ''cached''))"
    using fresh by (simp add: cached_api_key_def cached_api_key_try_def)
  have 2: "record_unexpired python_json ?fresh"
    using cached_key_is_unexpired [where lib = python_json and w = ?fresh and w' = ?fresh
      and t = "JStr ''cached''"] 1 hit
    by simp
  have 3: "get_api_key python_json ?stale = refresh_and_save python_json ?stale"
    using cached_key_is_unexpired [where lib = python_json and w = ?stale
      and x = "JInt 99" and e = 99
      and s = \<open>''{"token": "cached", "expires_at": 99}''\<close>
      and kvs = "[(''token'', JStr ''cached''), (''expires_at'', JInt 99)]"] stale
    by simp
  have fetched: \<open>refresh_api_key python_json ?server =
      (Inr (JObj [(''token'', JStr ''t''), (''expires_at'', JInt 0)]),
       ?server\<lparr>ncalls := 1, trace := [Http_Get github_api_key_url (Token (JStr ''gho_abc''))]\<rparr>)\<close>
    by (simp add: auth_eval json_eval)
  have written: \<open>dumps python_json (JObj [(''token'', JStr ''t''), (''expires_at'', JInt 0)]) =
      ''{"token": "t", "expires_at": 0}''\<close>
    by (simp add: json_eval)
  have 4: \<open>refresh_and_save python_json ?server =
     (Inr (JStr ''t''),
      ?server\<lparr>api_key_file := Some ''{"token": "t", "expires_at": 0}'', ncalls := 1,
         trace := [Http_Get github_api_key_url (Token (JStr ''gho_abc''))]\<rparr>)\<close>
    using cached_key_is_unexpired [where lib = python_json and w = ?server
      and kvs' = "[(''token'', JStr ''t''), (''expires_at'', JInt 0)]" and tok' = "JStr ''t''"
      and ?w1.0 = "?server\<lparr>ncalls := 1, trace := [Http_Get github_api_key_url (Token (JStr ''gho_abc''))]\<rparr>"]
      fetched written
    by (simp add: key_server_world_def offline_world_def)
  from 1 2 3 4 show ?thesis by simp
qed

text \<open>The claim as the specification states it fails on the refresh path: with no cached
  record and a server that answers with an expiry of 0, at time 100 the token is
  returned although the expiry it declares has passed.\<close>

theorem stale_refresh_counterexample:
  \<open>get_api_key python_json (key_server_world ''{"token": "t", "expires_at": 0}'') =
     (Inr (JStr ''t''),
      (key_server_world ''{"token": "t", "expires_at": 0}'')
        \<lparr>api_key_file := Some ''{"token": "t", "expires_at": 0}'', ncalls := 1,
         trace := [Http_Get github_api_key_url (Token (JStr ''gho_abc''))]\<rparr>) \<and>
   \<not> record_unexpired python_json
       ((key_server_world ''{"token": "t", "expires_at": 0}'')
        \<lparr>api_key_file := Some ''{"token": "t", "expires_at": 0}'', ncalls := 1,
         trace := [Http_Get github_api_key_url (Token (JStr ''gho_abc''))]\<rparr>)\<close>
  by (simp add: auth_eval json_eval)

text \<open>
  C10. The comparison is strict: a cached record whose expiry equals the clock is not
  used. The first \<^verbatim>\<open>try\<close> falls through, \<^verbatim>\<open>get_api_key\<close> is the refresh path, and at
  least one request goes to the network.
\<close>

theorem expiry_equal_to_now_is_expired:
  assumes "api_key_file w = Some s" and "loads lib s = Inr (JObj kvs)"
    and "map_of kvs ''expires_at'' = Some x" and "timestamp x = Some (clock w)"
  shows "cached_api_key lib w = Inr None \<and> get_api_key lib w = refresh_and_save lib w \<and>
         ncalls w < ncalls (snd (get_api_key lib w))"
  using cached_api_key_timestamp [OF assms] refresh_and_save_ncalls [of w lib]
  by (simp add: get_api_key_expired)

theorem expiry_equal_to_now_is_expired_witness:
  \<open>get_api_key python_json (cached_world ''{"token": "cached", "expires_at": 100}'') =
     refresh_and_save python_json (cached_world ''{"token": "cached", "expires_at": 100}'') \<and>
   get_api_key python_json (cached_world ''{"token": "cached", "expires_at": 100}'') =
     (Inl (Exception ''Failed to get API key: Failed to refresh API key after maximum retries''),
      (cached_world ''{"token": "cached", "expires_at": 100}'')
        \<lparr>clock := 102, ncalls := 3,
         trace := [Http_Get github_api_key_url (Token (JStr ''gho_abc'')), Sleep 1,
                   Http_Get github_api_key_url (Token (JStr ''gho_abc'')), Sleep 1,
                   Http_Get github_api_key_url (Token (JStr ''gho_abc''))]\<rparr>)\<close>
proof -
  let ?w = \<open>cached_world ''{"token": "cached", "expires_at": 100}''\<close>
  have stored: \<open>api_key_file ?w = Some ''{"token": "cached", "expires_at": 100}''\<close>
    by (simp add: cached_world_def)
  have parsed: \<open>loads python_json ''{"token": "cached", "expires_at": 100}'' =
      Inr (JObj [(''token'', JStr ''cached''), (''expires_at'', JInt 100)])\<close>
    by (simp add: json_eval)
  have now: "timestamp (JInt 100) = Some (clock ?w)"
    by (simp add: cached_world_def offline_world_def)
  have 1: "get_api_key python_json ?w = refresh_and_save python_json ?w"
    using expiry_equal_to_now_is_expired [OF stored parsed _ now] by simp
  have 2: "refresh_and_save python_json ?w =
     (Inl (Exception ''Failed to get API key: Failed to refresh API key after maximum retries''),
      ?w\<lparr>clock := 102, ncalls := 3,
         trace := [Http_Get github_api_key_url (Token (JStr ''gho_abc'')), Sleep 1,
                   Http_Get github_api_key_url (Token (JStr ''gho_abc'')), Sleep 1,
                   Http_Get github_api_key_url (Token (JStr ''gho_abc''))]\<rparr>)"
    by (simp add: auth_eval)
  from 1 2 show ?thesis by simp
qed

text \<open>
  C7 (amended). After a record with a token and an expiry later than the clock has been
  written to the api key file, \<^verbatim>\<open>get_api_key\<close> returns the token of that record and
  changes nothing, provided the JSON library reads back what it wrote.
\<close>

theorem saved_key_is_returned:
  assumes "save_api_key lib (JObj kvs) w = (Inr u, w')"
    and "loads lib (dumps lib (JObj kvs)) = Inr (JObj kvs)"
    and "map_of kvs ''token'' = Some tok"
    and "map_of kvs ''expires_at'' = Some x" and "timestamp x = Some e" and "e > clock w"
  shows "get_api_key lib w' = (Inr tok, w')"
proof -
  from assms(1) have w': "w' = w\<lparr>api_key_file := Some (dumps lib (JObj kvs))\<rparr>"
    by (simp add: save_api_key_def split: if_splits)
  then have "api_key_file w' = Some (dumps lib (JObj kvs))" and "clock w' = clock w"
    by simp_all
  with cached_api_key_timestamp [of w' "dumps lib (JObj kvs)" lib kvs x e] assms
  show ?thesis by (simp add: get_api_key_cached)
qed

theorem saved_key_is_returned_witness:
  "get_api_key python_json
     (offline_world\<lparr>api_key_file :=
        Some (dumps python_json (JObj [(''token'', JStr ''k1''), (''expires_at'', JInt 3700)]))\<rparr>) =
   (Inr (JStr ''k1''),
    offline_world\<lparr>api_key_file :=
        Some (dumps python_json (JObj [(''token'', JStr ''k1''), (''expires_at'', JInt 3700)]))\<rparr>)"
proof -
  let ?k = "[(''token'', JStr ''k1''), (''expires_at'', JInt 3700)]"
  have saved: "save_api_key python_json (JObj ?k) offline_world =
      (Inr (), offline_world\<lparr>api_key_file := Some (dumps python_json (JObj ?k))\<rparr>)"
    by (simp add: save_api_key_def offline_world_def)
  have roundtrip: "loads python_json (dumps python_json (JObj ?k)) = Inr (JObj ?k)"
    by (simp add: json_eval)
  have later: "(3700::real) > clock offline_world"
    by (simp add: offline_world_def)
  show ?thesis
    using saved_key_is_returned [OF saved roundtrip _ _ _ later, of "JStr ''k1''" "JInt 3700"]
    by simp
qed

text \<open>Without the condition on the expiry the claim fails: a saved record that has
  expired is refreshed, and the token returned is the server's.\<close>

theorem expired_saved_key_counterexample:
  \<open>save_api_key python_json (JObj [(''token'', JStr ''a''), (''expires_at'', JInt 0)])
     (key_server_world ''{"token": "b", "expires_at": 1000}'') =
     (Inr (), (key_server_world ''{"token": "b", "expires_at": 1000}'')
                \<lparr>api_key_file := Some ''{"token": "a", "expires_at": 0}''\<rparr>) \<and>
   fst (get_api_key python_json
          ((key_server_world ''{"token": "b", "expires_at": 1000}'')
             \<lparr>api_key_file := Some ''{"token": "a", "expires_at": 0}''\<rparr>)) = Inr (JStr ''b'')\<close>
  by (simp add: auth_eval json_eval)

text \<open>What does hold of an unusable cache: a file that cannot be opened, a file that is
  not JSON, and an object without \<^verbatim>\<open>expires_at\<close> all lead to the refresh path.\<close>

lemma unusable_cache_falls_through:
  assumes "api_key_file w = None \<or>
           (\<exists>s m. api_key_file w = Some s \<and> loads lib s = Inl m) \<or>
           (\<exists>s kvs. api_key_file w = Some s \<and> loads lib s = Inr (JObj kvs) \<and>
              map_of kvs ''expires_at'' = None \<and> 0 \<le> clock w)"
  shows "get_api_key lib w = refresh_and_save lib w"
  using assms
  by (auto simp: get_api_key_def cached_api_key_def cached_api_key_try_def)

text \<open>
  C9. The code does not treat every malformed cache as absent. A cached object that
  lacks the token but declares a future expiry makes \<^verbatim>\<open>get_api_key\<close> return \<^verbatim>\<open>None\<close>
  without any refresh, and a cached document that is not an object makes it raise
  \<^verbatim>\<open>AttributeError\<close>, where the same machine without the file goes to the network three
  times.
\<close>

theorem cache_without_token_is_returned:
  \<open>get_api_key python_json (cached_world ''{"expires_at": 4102444800}'') =
     (Inr JNull, cached_world ''{"expires_at": 4102444800}'') \<and>
   get_api_key python_json (cached_world ''[]'') =
     (Inl (AttributeError ''object has no attribute get''), cached_world ''[]'') \<and>
   fst (get_api_key python_json offline_world) =
     Inl (Exception ''Failed to get API key: Failed to refresh API key after maximum retries'') \<and>
   ncalls (snd (get_api_key python_json offline_world)) = 3\<close>
  by (simp add: auth_eval json_eval)

section \<open>execute\<close>

lemma keyed_world_key:
  "get_api_key python_json (keyed_world net) = (Inr (JStr ''k1''), keyed_world net)"
  by (simp add: keyed_world_def auth_eval json_eval)

lemma execute_with_key:
  assumes "get_api_key lib w = (Inr key, w1)" and "py_slice_len key = Inr n"
  shows "execute lib p stream conv w =
           (case diagnostic_request key (build_payload p stream conv)
                   (w1\<lparr>response_sink := Some usage_record\<rparr>) of
              (Some text_content, w3) \<Rightarrow> (([JStr text_content], None), w3)
            | (None, w3) \<Rightarrow>
                (case streaming_request lib key (build_payload p stream conv) w3 of
                   (fragments, w4) \<Rightarrow> ((fragments, None), w4)))"
  using assms by (simp add: execute_def Let_def)

lemma diagnostic_request_body:
  assumes "http w (ncalls w) = Returns r" and "body r \<noteq> []"
  shows "diagnostic_request key payload w =
           (Some (body r), w\<lparr>ncalls := Suc (ncalls w), trace := trace w @ [diagnostic_call key payload]\<rparr>)"
  using assms by (simp add: diagnostic_request_def http_call_def)

lemma diagnostic_request_none:
  assumes "(\<exists>e. http w (ncalls w) = Raises e) \<or> (\<exists>r. http w (ncalls w) = Returns r \<and> body r = [])"
  shows "diagnostic_request key payload w =
           (None, w\<lparr>ncalls := Suc (ncalls w), trace := trace w @ [diagnostic_call key payload]\<rparr>)"
  using assms by (auto simp: diagnostic_request_def http_call_def)

lemma streaming_request_trace:
  "trace (snd (streaming_request lib key payload w)) = trace w @ [streaming_call key payload]"
  by (auto simp: streaming_request_def http_call_def Let_def split: http_reply.splits prod.splits option.splits sum.splits)

lemma execute_short_circuit:
  assumes "get_api_key lib w = (Inr key, w1)" and "py_slice_len key = Inr n"
    and "http w1 (ncalls w1) = Returns r" and "body r \<noteq> []"
  shows "execute lib p stream conv w =
           (([JStr (body r)], None),
            w1\<lparr>response_sink := Some usage_record, ncalls := Suc (ncalls w1),
               trace := trace w1 @ [diagnostic_call key (build_payload p stream conv)]\<rparr>)"
  using diagnostic_request_body [of "w1\<lparr>response_sink := Some usage_record\<rparr>" r key
      "build_payload p stream conv"] assms
  by (simp add: execute_with_key [OF assms(1,2)])

lemma execute_streams:
  assumes "get_api_key lib w = (Inr key, w1)" and "py_slice_len key = Inr n"
    and "(\<exists>e. http w1 (ncalls w1) = Raises e) \<or> (\<exists>r. http w1 (ncalls w1) = Returns r \<and> body r = [])"
  shows "trace (snd (execute lib p stream conv w)) =
           trace w1 @ [diagnostic_call key (build_payload p stream conv),
                       streaming_call key (build_payload p stream conv)]"
proof -
  let ?w2 = "w1\<lparr>response_sink := Some usage_record\<rparr>"
  let ?w3 = "?w2\<lparr>ncalls := Suc (ncalls ?w2),
                  trace := trace ?w2 @ [diagnostic_call key (build_payload p stream conv)]\<rparr>"
  have "diagnostic_request key (build_payload p stream conv) ?w2 = (None, ?w3)"
    using diagnostic_request_none [of ?w2 key "build_payload p stream conv"] assms(3) by simp
  then have "execute lib p stream conv w =
      (case streaming_request lib key (build_payload p stream conv) ?w3 of
         (fragments, w4) \<Rightarrow> ((fragments, None), w4))"
    by (simp add: execute_with_key [OF assms(1,2)])
  then have "snd (execute lib p stream conv w) =
      snd (streaming_request lib key (build_payload p stream conv) ?w3)"
    by (simp split: prod.splits)
  then show ?thesis
    by (simp add: streaming_request_trace)
qed

lemma execute_posts_payload:
  assumes "get_api_key lib w = (Inr key, w1)" and "py_slice_len key = Inr n"
  shows "diagnostic_call key (build_payload p stream conv) \<in> set (trace (snd (execute lib p stream conv w)))"
proof (cases "http w1 (ncalls w1)")
  case (Raises e)
  then show ?thesis using execute_streams [OF assms, of p stream conv] by simp
next
  case (Returns r)
  show ?thesis
  proof (cases "body r = []")
    case True
    with Returns show ?thesis using execute_streams [OF assms, of p stream conv] by simp
  next
    case False
    with Returns show ?thesis using execute_short_circuit [OF assms, of r p stream conv] by simp
  qed
qed

text \<open>
  C4 (amended). Once \<^verbatim>\<open>execute\<close> holds an API key it can print, its first request is
  the diagnostic one, with \<^verbatim>\<open>stream\<close> forced to false. When that call returns a body
  that is not empty, the body is the only fragment and no further request is made.
  The streaming request is made exactly in the other runs: when the diagnostic call
  returned an empty body, and also when it raised.
\<close>

theorem diagnostic_call_first:
  assumes "get_api_key lib w = (Inr key, w1)" and "py_slice_len key = Inr n"
  shows "(http w1 (ncalls w1) = Returns r \<and> body r \<noteq> [] \<longrightarrow>
            execute lib p stream conv w =
              (([JStr (body r)], None),
               w1\<lparr>response_sink := Some usage_record, ncalls := Suc (ncalls w1),
                  trace := trace w1 @ [diagnostic_call key (build_payload p stream conv)]\<rparr>)) \<and>
         (http w1 (ncalls w1) = Returns r \<and> body r = [] \<or> http w1 (ncalls w1) = Raises e \<longrightarrow>
            trace (snd (execute lib p stream conv w)) =
              trace w1 @ [diagnostic_call key (build_payload p stream conv),
                          streaming_call key (build_payload p stream conv)])"
  using execute_short_circuit [OF assms, of r p stream conv]
    execute_streams [OF assms, of p stream conv]
  by blast

lemmas exec_eval =
  diagnostic_request_def streaming_request_def http_call_def Let_def keyed_world_def
  offline_world_def ok_response_def stream_response_def body_net_def lines_net_def
  failing_diagnostic_net_def startswith_def yield_def

theorem diagnostic_call_first_witness:
  "execute python_json hello_prompt False None (keyed_world (body_net ''Hello!'')) =
     (([JStr ''Hello!''], None),
      (keyed_world (body_net ''Hello!''))
        \<lparr>response_sink := Some usage_record, ncalls := 1,
         trace := [diagnostic_call (JStr ''k1'') (build_payload hello_prompt False None)]\<rparr>) \<and>
   trace (snd (execute python_json hello_prompt False None (keyed_world (lines_net [''data: [DONE]'']))))
     = [diagnostic_call (JStr ''k1'') (build_payload hello_prompt False None),
        streaming_call (JStr ''k1'') (build_payload hello_prompt False None)] \<and>
   trace (snd (execute python_json hello_prompt False None (keyed_world failing_diagnostic_net)))
     = [diagnostic_call (JStr ''k1'') (build_payload hello_prompt False None),
        streaming_call (JStr ''k1'') (build_payload hello_prompt False None)]"
proof -
  have sl: "py_slice_len (JStr ''k1'') = Inr 2" by simp
  have 1: "http (keyed_world (body_net ''Hello!'')) (ncalls (keyed_world (body_net ''Hello!''))) =
             Returns (ok_response ''Hello!'') \<and> body (ok_response ''Hello!'') \<noteq> []"
    by (simp add: exec_eval)
  have 2: "http (keyed_world (lines_net [''data: [DONE]''])) (ncalls (keyed_world (lines_net [''data: [DONE]'']))) =
             Returns (stream_response [''data: [DONE]'']) \<and> body (stream_response [''data: [DONE]'']) = []"
    by (simp add: exec_eval)
  have 3: "http (keyed_world failing_diagnostic_net) (ncalls (keyed_world failing_diagnostic_net)) =
             Raises (TransportError ''timed out'')"
    by (simp add: exec_eval)
  from diagnostic_call_first [OF keyed_world_key sl, of "body_net ''Hello!''" "ok_response ''Hello!''"
      hello_prompt False None] 1
  have a: "execute python_json hello_prompt False None (keyed_world (body_net ''Hello!'')) =
     (([JStr ''Hello!''], None),
      (keyed_world (body_net ''Hello!''))
        \<lparr>response_sink := Some usage_record, ncalls := 1,
         trace := [diagnostic_call (JStr ''k1'') (build_payload hello_prompt False None)]\<rparr>)"
    by (simp add: exec_eval)
  from diagnostic_call_first [OF keyed_world_key sl, of "lines_net [''data: [DONE]'']"
      "stream_response [''data: [DONE]'']" hello_prompt False None] 2
  have b: "trace (snd (execute python_json hello_prompt False None (keyed_world (lines_net [''data: [DONE]''])))) =
     [diagnostic_call (JStr ''k1'') (build_payload hello_prompt False None),
      streaming_call (JStr ''k1'') (build_payload hello_prompt False None)]"
    by (simp add: exec_eval)
  from diagnostic_call_first [OF keyed_world_key sl, of failing_diagnostic_net _
      hello_prompt False None "TransportError ''timed out''"] 3
  have c: "trace (snd (execute python_json hello_prompt False None (keyed_world failing_diagnostic_net))) =
     [diagnostic_call (JStr ''k1'') (build_payload hello_prompt False None),
      streaming_call (JStr ''k1'') (build_payload hello_prompt False None)]"
    by (simp add: exec_eval)
  from a b c show ?thesis by simp
qed

text \<open>The claim as the specification states it fails where the diagnostic call raises:
  the streaming call is made although no empty body was returned.\<close>

theorem failed_diagnostic_counterexample:
  "http (keyed_world failing_diagnostic_net) 0 = Raises (TransportError ''timed out'') \<and>
   execute python_json hello_prompt False None (keyed_world failing_diagnostic_net) =
     (([], None),
      (keyed_world failing_diagnostic_net)
        \<lparr>response_sink := Some usage_record, ncalls := 2,
         trace := [diagnostic_call (JStr ''k1'') (build_payload hello_prompt False None),
                   streaming_call (JStr ''k1'') (build_payload hello_prompt False None)]\<rparr>)"
proof -
  have "execute python_json hello_prompt False None (keyed_world failing_diagnostic_net) =
     (([], None),
      (keyed_world failing_diagnostic_net)
        \<lparr>response_sink := Some usage_record, ncalls := 2,
         trace := [diagnostic_call (JStr ''k1'') (build_payload hello_prompt False None),
                   streaming_call (JStr ''k1'') (build_payload hello_prompt False None)]\<rparr>)"
    unfolding execute_def keyed_world_key by (simp add: exec_eval)
  then show ?thesis by (simp add: exec_eval)
qed

text \<open>
  C1. \<^verbatim>\<open>execute\<close> can raise. When the key exchange answers with a token that is \<^verbatim>\<open>null\<close>,
  or the cached record has a future expiry and no token, \<^verbatim>\<open>get_api_key\<close> returns
  \<^verbatim>\<open>None\<close>, and the debug output \<^verbatim>\<open>api_key[:4]\<close>, which no handler covers, raises
  \<^verbatim>\<open>TypeError\<close> to the caller before any fragment is yielded.
\<close>

theorem token_null_raises:
  \<open>execute python_json hello_prompt False None (key_server_world ''{"token": null}'') =
     (([], Some (TypeError ''object is not subscriptable'')),
      (key_server_world ''{"token": null}'')
        \<lparr>api_key_file := Some ''{"token": null}'', ncalls := 1,
         trace := [Http_Get github_api_key_url (Token (JStr ''gho_abc''))]\<rparr>) \<and>
   execute python_json hello_prompt False None (cached_world ''{"expires_at": 4102444800}'') =
     (([], Some (TypeError ''object is not subscriptable'')),
      cached_world ''{"expires_at": 4102444800}'')\<close>
  by (simp add: execute_def auth_eval json_eval)

text \<open>What does hold: a failed credential acquisition gives one error fragment; the
  exception above is the only one that leaves \<^verbatim>\<open>execute\<close>; and with a printable key and
  both completion calls failing, the one fragment is the error message of the second.\<close>

lemma execute_key_error:
  assumes "get_api_key lib w = (Inl e, w1)"
  shows "execute lib p stream conv w =
           (([JStr (''Error getting GitHub Copilot API key: '' @ str_exn e)], None), w1)"
  using assms by (simp add: execute_def)

lemma execute_raises_iff:
  "snd (fst (execute lib p stream conv w)) \<noteq> None \<longleftrightarrow>
     (\<exists>key w1 e. get_api_key lib w = (Inr key, w1) \<and> py_slice_len key = Inl e)"
  by (auto simp: execute_def Let_def split: prod.splits sum.splits option.splits)

lemma execute_all_calls_fail:
  assumes "get_api_key lib w = (Inr key, w1)" and "py_slice_len key = Inr n"
    and "http w1 (ncalls w1) = Raises e1" and "http w1 (Suc (ncalls w1)) = Raises e2"
  shows "fst (execute lib p stream conv w) = ([JStr (error_message e2)], None)"
  using assms
  by (simp add: execute_with_key [OF assms(1,2)] diagnostic_request_def streaming_request_def
        http_call_def)

section \<open>The streamed lines\<close>

lemma delta_content_present:
  assumes "map_of kvs ''choices'' = Some (JArr (JObj choice # others))"
    and "map_of choice ''delta'' = Some (JObj delta)"
    and "map_of delta ''content'' = Some content"
  shows "delta_content (JObj kvs) = Inr content"
  using assms by (simp add: delta_content_def)

lemma process_lines_data:
  assumes "payload \<noteq> ''[DONE]''"
  shows "process_lines lib ((''data: '' @ payload) # rest) err =
           (case loads lib payload of
              Inl m \<Rightarrow> yield (JStr payload) (process_lines lib rest err)
            | Inr json_data \<Rightarrow>
                (case delta_content json_data of
                   Inl e \<Rightarrow> ([], Some e)
                 | Inr content \<Rightarrow>
                     if truthy content then yield content (process_lines lib rest err)
                     else process_lines lib rest err))"
  using assms by (simp add: startswith_def split: sum.splits)

lemma process_lines_done:
  "process_lines lib (''data: [DONE]'' # rest) err = ([], None)"
  by (simp add: startswith_def)

text \<open>
  C5 (amended). In the loop over the streamed lines: the line \<^verbatim>\<open>data: [DONE]\<close> ends the
  fragments, whatever follows it; a \<^verbatim>\<open>data: \<close> payload that parses to an object whose
  first choice has a delta with a content field yields that content when the content
  is truthy (a string that is not empty), and yields nothing and goes on when it is
  falsy (the empty string, \<^verbatim>\<open>null\<close>); a payload that does not parse is yielded as it is,
  and the loop goes on; a line that is not empty and has no \<^verbatim>\<open>data: \<close> prefix is yielded
  as it is. The three lines of P4 give \<^verbatim>\<open>Hi\<close>, \<^verbatim>\<open> there\<close> and the end, and
  \<^verbatim>\<open>data: not-json\<close> gives \<^verbatim>\<open>not-json\<close> and the loop goes on.
\<close>

theorem stream_lines_decoded:
  \<open>process_lines lib (''data: [DONE]'' # rest) err = ([], None) \<and>
   (payload \<noteq> ''[DONE]'' \<and> loads lib payload = Inr (JObj kvs) \<and>
    map_of kvs ''choices'' = Some (JArr (JObj choice # others)) \<and>
    map_of choice ''delta'' = Some (JObj delta) \<and>
    map_of delta ''content'' = Some content \<longrightarrow>
      process_lines lib ((''data: '' @ payload) # rest) err =
        (if truthy content then yield content (process_lines lib rest err)
         else process_lines lib rest err)) \<and>
   (payload \<noteq> ''[DONE]'' \<and> loads lib payload = Inl m \<longrightarrow>
      process_lines lib ((''data: '' @ payload) # rest) err =
        yield (JStr payload) (process_lines lib rest err)) \<and>
   (line \<noteq> [] \<and> \<not> startswith line ''data: '' \<longrightarrow>
      process_lines lib (line # rest) err = yield (JStr line) (process_lines lib rest err)) \<and>
   process_lines python_json
     (''data: {"choices":[{"delta":{"content":"Hi"}}]}'' #
      ''data: {"choices":[{"delta":{"content":" there"}}]}'' #
      ''data: [DONE]'' # rest) err = ([JStr ''Hi'', JStr '' there''], None) \<and>
   process_lines python_json (''data: not-json'' # rest) err =
     yield (JStr ''not-json'') (process_lines python_json rest err)\<close>
proof (intro conjI impI)
  show "process_lines lib (''data: [DONE]'' # rest) err = ([], None)"
    by (rule process_lines_done)
next
  assume a: "payload \<noteq> ''[DONE]'' \<and> loads lib payload = Inr (JObj kvs) \<and>
    map_of kvs ''choices'' = Some (JArr (JObj choice # others)) \<and>
    map_of choice ''delta'' = Some (JObj delta) \<and>
    map_of delta ''content'' = Some content"
  then have "delta_content (JObj kvs) = Inr content"
    using delta_content_present by blast
  with a process_lines_data [of payload lib rest err]
  show "process_lines lib ((''data: '' @ payload) # rest) err =
        (if truthy content then yield content (process_lines lib rest err)
         else process_lines lib rest err)"
    by (simp del: process_lines.simps(2))
next
  assume "payload \<noteq> ''[DONE]'' \<and> loads lib payload = Inl m"
  with process_lines_data [of payload lib rest err]
  show "process_lines lib ((''data: '' @ payload) # rest) err =
        yield (JStr payload) (process_lines lib rest err)"
    by (simp del: process_lines.simps(2))
next
  assume "line \<noteq> [] \<and> \<not> startswith line ''data: ''"
  then show "process_lines lib (line # rest) err = yield (JStr line) (process_lines lib rest err)"
    by simp
next
  have hi: \<open>loads python_json ''{"choices":[{"delta":{"content":"Hi"}}]}'' =
      Inr (JObj [(''choices'', JArr [JObj [(''delta'', JObj [(''content'', JStr ''Hi'')])]])])\<close>
    by (simp add: json_eval)
  have there: \<open>loads python_json ''{"choices":[{"delta":{"content":" there"}}]}'' =
      Inr (JObj [(''choices'', JArr [JObj [(''delta'', JObj [(''content'', JStr '' there'')])]])])\<close>
    by (simp add: json_eval)
  have 1: \<open>process_lines python_json
     (''data: {"choices":[{"delta":{"content":"Hi"}}]}'' # ls) err =
     yield (JStr ''Hi'') (process_lines python_json ls err)\<close> for ls
    using process_lines_data [of \<open>''{"choices":[{"delta":{"content":"Hi"}}]}''\<close> python_json ls err] hi
    by (simp add: delta_content_def del: process_lines.simps(2))
  have 2: \<open>process_lines python_json
     (''data: {"choices":[{"delta":{"content":" there"}}]}'' # ls) err =
     yield (JStr '' there'') (process_lines python_json ls err)\<close> for ls
    using process_lines_data [of \<open>''{"choices":[{"delta":{"content":" there"}}]}''\<close> python_json ls err] there
    by (simp add: delta_content_def del: process_lines.simps(2))
  show \<open>process_lines python_json
     (''data: {"choices":[{"delta":{"content":"Hi"}}]}'' #
      ''data: {"choices":[{"delta":{"content":" there"}}]}'' #
      ''data: [DONE]'' # rest) err = ([JStr ''Hi'', JStr '' there''], None)\<close>
    unfolding 1 2 process_lines_done by (simp add: yield_def)
next
  have nj: "loads python_json ''not-json'' = Inl ''Expecting value''"
    by (simp add: json_eval)
  show "process_lines python_json (''data: not-json'' # rest) err =
     yield (JStr ''not-json'') (process_lines python_json rest err)"
    using process_lines_data [of "''not-json''" python_json rest err] nj
    by (simp del: process_lines.simps(2))
qed

theorem stream_lines_decoded_witness:
  \<open>process_lines python_json
     [''data: {"choices":[{"delta":{"content":"Hi"}}]}'', ''data: oops'', ''ping'',
      ''data: {"choices":[{"delta":{"content":null}}]}'', ''data: [DONE]'', ''ignored''] None =
     ([JStr ''Hi'', JStr ''oops'', JStr ''ping''], None)\<close>
proof -
  have hi: \<open>loads python_json ''{"choices":[{"delta":{"content":"Hi"}}]}'' =
      Inr (JObj [(''choices'', JArr [JObj [(''delta'', JObj [(''content'', JStr ''Hi'')])]])])\<close>
    by (simp add: json_eval)
  have null: \<open>loads python_json ''{"choices":[{"delta":{"content":null}}]}'' =
      Inr (JObj [(''choices'', JArr [JObj [(''delta'', JObj [(''content'', JNull)])]])])\<close>
    by (simp add: json_eval)
  have bad: "loads python_json ''oops'' = Inl ''Expecting value''"
    by (simp add: json_eval)
  have 1: \<open>process_lines python_json (''data: {"choices":[{"delta":{"content":"Hi"}}]}'' # ls) None =
      yield (JStr ''Hi'') (process_lines python_json ls None)\<close> for ls
    using stream_lines_decoded [where lib = python_json and rest = ls and err = None
        and payload = \<open>''{"choices":[{"delta":{"content":"Hi"}}]}''\<close>
        and kvs = "[(''choices'', JArr [JObj [(''delta'', JObj [(''content'', JStr ''Hi'')])]])]"
        and choice = "[(''delta'', JObj [(''content'', JStr ''Hi'')])]" and others = "[]"
        and delta = "[(''content'', JStr ''Hi'')]" and content = "JStr ''Hi''"] hi
    by (simp del: process_lines.simps(2))
  have 2: "process_lines python_json (''data: oops'' # ls) None =
      yield (JStr ''oops'') (process_lines python_json ls None)" for ls
    using stream_lines_decoded [where lib = python_json and rest = ls and err = None
        and payload = "''oops''" and m = "''Expecting value''"] bad
    by (simp del: process_lines.simps(2))
  have 3: "process_lines python_json (''ping'' # ls) None =
      yield (JStr ''ping'') (process_lines python_json ls None)" for ls
    using stream_lines_decoded [where lib = python_json and rest = ls and err = None
        and line = "''ping''"]
    by (simp add: startswith_def del: process_lines.simps(2))
  have 4: \<open>process_lines python_json (''data: {"choices":[{"delta":{"content":null}}]}'' # ls) None =
      process_lines python_json ls None\<close> for ls
    using stream_lines_decoded [where lib = python_json and rest = ls and err = None
        and payload = \<open>''{"choices":[{"delta":{"content":null}}]}''\<close>
        and kvs = "[(''choices'', JArr [JObj [(''delta'', JObj [(''content'', JNull)])]])]"
        and choice = "[(''delta'', JObj [(''content'', JNull)])]" and others = "[]"
        and delta = "[(''content'', JNull)]" and content = JNull] null
    by (simp del: process_lines.simps(2))
  have 5: "process_lines python_json (''data: [DONE]'' # ls) None = ([], None)" for ls
    using stream_lines_decoded [where lib = python_json and rest = ls and err = None]
    by (simp del: process_lines.simps(2))
  show ?thesis unfolding 1 2 3 4 5 by (simp add: yield_def)
qed

text \<open>The claim as the specification states it fails for a content field that is present
  and empty: the payload parses, the first choice's delta has the content \<^verbatim>\<open>""\<close>, and no
  fragment is yielded.\<close>

theorem empty_content_counterexample:
  \<open>loads python_json ''{"choices":[{"delta":{"content":""}}]}'' =
     Inr (JObj [(''choices'', JArr [JObj [(''delta'', JObj [(''content'', JStr '''')])]])]) \<and>
   delta_content (JObj [(''choices'', JArr [JObj [(''delta'', JObj [(''content'', JStr '''')])]])]) =
     Inr (JStr '''') \<and>
   process_lines python_json [''data: {"choices":[{"delta":{"content":""}}]}''] None = ([], None)\<close>
proof -
  have e: \<open>loads python_json ''{"choices":[{"delta":{"content":""}}]}'' =
     Inr (JObj [(''choices'', JArr [JObj [(''delta'', JObj [(''content'', JStr '''')])]])])\<close>
    by (simp add: json_eval)
  have d: "delta_content (JObj [(''choices'', JArr [JObj [(''delta'', JObj [(''content'', JStr '''')])]])]) =
     Inr (JStr '''')"
    by (simp add: delta_content_def)
  have \<open>process_lines python_json [''data: {"choices":[{"delta":{"content":""}}]}''] None = ([], None)\<close>
    using process_lines_data [of \<open>''{"choices":[{"delta":{"content":""}}]}''\<close> python_json "[]" None] e d
    by (simp del: process_lines.simps(2))
  with e d show ?thesis by simp
qed

section \<open>The payload\<close>

lemma is_system_message:
  "is_system (message role content) \<longleftrightarrow> role = ''system''"
  by (simp add: is_system_def message_def)

lemma replay_Some:
  "replay (Some c) =
     concat (map (\<lambda>r. [message ''user'' (prior_prompt r), message ''assistant'' (prior_text r)])
               (responses c))"
  by (simp add: replay_def)

lemma no_system_in_pairs:
  "\<not> list_ex is_system
       (concat (map (\<lambda>r. [message ''user'' (prior_prompt r), message ''assistant'' (prior_text r)]) rs))"
  by (induction rs) (simp_all add: is_system_message)

lemma replay_empty_iff:
  "replay conv = [] \<longleftrightarrow> conv = None \<or> (\<exists>c. conv = Some c \<and> responses c = [])"
  by (cases conv) (auto simp: replay_def)

text \<open>
  C6. The message list of the completion request: for a conversation that is absent or
  has no responses, the system preamble and the new user turn; otherwise the system
  preamble, the user and assistant messages of every earlier response in order, and the
  new user turn at the end (the replayed messages never hold a system message, so the
  preamble is always put in front). This list is the \<^verbatim>\<open>messages\<close> field of the payload,
  also of the diagnostic payload, and the diagnostic request carrying that payload is
  made in every run that holds a printable API key.
\<close>

theorem request_messages:
  "(conv = None \<or> (conv = Some c \<and> responses c = []) \<longrightarrow>
      build_messages conv p = [system_preamble, message ''user'' (prompt_text p)]) \<and>
   (conv = Some c \<and> responses c \<noteq> [] \<longrightarrow>
      build_messages conv p =
        system_preamble #
        concat (map (\<lambda>r. [message ''user'' (prior_prompt r), message ''assistant'' (prior_text r)])
                  (responses c)) @
        [message ''user'' (prompt_text p)]) \<and>
   py_getitem (build_payload p stream conv) ''messages'' = Inr (JArr (build_messages conv p)) \<and>
   py_getitem (py_set (build_payload p stream conv) ''stream'' (JBool False)) ''messages'' =
     Inr (JArr (build_messages conv p)) \<and>
   (get_api_key lib w = (Inr key, w1) \<and> py_slice_len key = Inr n \<longrightarrow>
      diagnostic_call key (build_payload p stream conv)
        \<in> set (trace (snd (execute lib p stream conv w))))"
proof (intro conjI impI)
  assume "conv = None \<or> (conv = Some c \<and> responses c = [])"
  then have "replay conv = []" by (auto simp: replay_def)
  then show "build_messages conv p = [system_preamble, message ''user'' (prompt_text p)]"
    by (simp add: build_messages_def)
next
  assume a: "conv = Some c \<and> responses c \<noteq> []"
  then have ne: "replay conv \<noteq> []"
    using replay_empty_iff [of conv] by auto
  from a have "\<not> list_ex is_system (replay conv)"
    using no_system_in_pairs [of "responses c"] by (simp add: replay_Some)
  with ne a show "build_messages conv p =
        system_preamble #
        concat (map (\<lambda>r. [message ''user'' (prior_prompt r), message ''assistant'' (prior_text r)])
                  (responses c)) @
        [message ''user'' (prompt_text p)]"
    by (simp add: build_messages_def Let_def replay_Some)
next
  show "py_getitem (build_payload p stream conv) ''messages'' = Inr (JArr (build_messages conv p))"
    by (simp add: build_payload_def)
next
  show "py_getitem (py_set (build_payload p stream conv) ''stream'' (JBool False)) ''messages'' =
     Inr (JArr (build_messages conv p))"
    by (simp add: build_payload_def)
next
  assume "get_api_key lib w = (Inr key, w1) \<and> py_slice_len key = Inr n"
  then show "diagnostic_call key (build_payload p stream conv)
        \<in> set (trace (snd (execute lib p stream conv w)))"
    using execute_posts_payload by blast
qed

theorem request_messages_witness:
  "build_messages None hello_prompt = [system_preamble, message ''user'' ''hello''] \<and>
   build_messages (Some one_exchange) hello_prompt =
     [system_preamble, message ''user'' ''hi'', message ''assistant'' ''Hello!'',
      message ''user'' ''hello''] \<and>
   diagnostic_call (JStr ''k1'') (build_payload hello_prompt False (Some one_exchange))
     \<in> set (trace (snd (execute python_json hello_prompt False (Some one_exchange)
                           (keyed_world (body_net ''Hello!'')))))"
proof -
  have sl: "py_slice_len (JStr ''k1'') = Inr 2" by simp
  have 1: "build_messages None hello_prompt = [system_preamble, message ''user'' ''hello'']"
    using request_messages [where conv = None and p = hello_prompt]
    by (simp add: hello_prompt_def)
  have 2: "build_messages (Some one_exchange) hello_prompt =
     [system_preamble, message ''user'' ''hi'', message ''assistant'' ''Hello!'',
      message ''user'' ''hello'']"
    using request_messages [where conv = "Some one_exchange" and c = one_exchange
        and p = hello_prompt]
    by (simp add: hello_prompt_def one_exchange_def)
  have 3: "diagnostic_call (JStr ''k1'') (build_payload hello_prompt False (Some one_exchange))
     \<in> set (trace (snd (execute python_json hello_prompt False (Some one_exchange)
                           (keyed_world (body_net ''Hello!'')))))"
    using request_messages [where lib = python_json and w = "keyed_world (body_net ''Hello!'')"
        and key = "JStr ''k1''" and ?w1.0 = "keyed_world (body_net ''Hello!'')" and n = 2
        and p = hello_prompt and stream = False and conv = "Some one_exchange"]
      keyed_world_key [of "body_net ''Hello!''"] sl
    by simp
  from 1 2 3 show ?thesis by simp
qed

text \<open>
  C8. The validator accepts the temperature 0, and a prompt whose temperature is 0 is
  sent with the temperature 0.7: \<^verbatim>\<open>temperature or 0.7\<close> replaces the falsy value by the
  default, in the payload of the streaming request and in that of the diagnostic one,
  which every run holding a printable API key sends.
\<close>

theorem zero_temperature_replaced:
  "validate_temperature (Some 0) = Inr (Some 0) \<and>
   (temperature (prompt_options p) = Some 0 \<longrightarrow>
      py_getitem (build_payload p stream conv) ''temperature'' = Inr (JFloat 0.7) \<and>
      py_getitem (py_set (build_payload p stream conv) ''stream'' (JBool False)) ''temperature'' =
        Inr (JFloat 0.7)) \<and>
   (temperature (prompt_options p) = Some 0 \<and>
    get_api_key lib w = (Inr key, w1) \<and> py_slice_len key = Inr n \<longrightarrow>
      diagnostic_call key (build_payload p stream conv)
        \<in> set (trace (snd (execute lib p stream conv w))))"
proof (intro conjI impI)
  show "validate_temperature (Some 0) = Inr (Some 0)"
    by (simp add: validate_temperature_def)
next
  assume "temperature (prompt_options p) = Some 0"
  then show "py_getitem (build_payload p stream conv) ''temperature'' = Inr (JFloat 0.7)"
    by (simp add: build_payload_def temperature_or_default_def)
next
  assume "temperature (prompt_options p) = Some 0"
  then show "py_getitem (py_set (build_payload p stream conv) ''stream'' (JBool False)) ''temperature'' =
        Inr (JFloat 0.7)"
    by (simp add: build_payload_def temperature_or_default_def)
next
  assume "temperature (prompt_options p) = Some 0 \<and>
    get_api_key lib w = (Inr key, w1) \<and> py_slice_len key = Inr n"
  then show "diagnostic_call key (build_payload p stream conv)
        \<in> set (trace (snd (execute lib p stream conv w)))"
    using execute_posts_payload by blast
qed

theorem zero_temperature_replaced_witness:
  "validate_temperature (temperature (prompt_options zero_temperature_prompt)) = Inr (Some 0) \<and>
   py_getitem (build_payload zero_temperature_prompt False None) ''temperature'' = Inr (JFloat 0.7) \<and>
   diagnostic_call (JStr ''k1'') (build_payload zero_temperature_prompt False None)
     \<in> set (trace (snd (execute python_json zero_temperature_prompt False None
                           (keyed_world (body_net ''Hello!'')))))"
proof -
  have sl: "py_slice_len (JStr ''k1'') = Inr 2" by simp
  have z: "temperature (prompt_options zero_temperature_prompt) = Some 0"
    by (simp add: zero_temperature_prompt_def)
  from zero_temperature_replaced [where p = zero_temperature_prompt and stream = False
      and conv = None and lib = python_json and w = "keyed_world (body_net ''Hello!'')"
      and key = "JStr ''k1''" and ?w1.0 = "keyed_world (body_net ''Hello!'')" and n = 2]
    z sl keyed_world_key [of "body_net ''Hello!''"]
  show ?thesis by simp
qed

end
